theory Spec2Isabelle
  imports Main
begin

section \<open>Strings\<close>

text \<open>
  A Python \<open>str\<close> is a sequence of code points. It is modelled as a \<open>string\<close>, so the
  code points are those below 256. The pictographs that open some of the messages of
  \<open>GITCHEAT.py\<close> lie outside that range: they are left out of the message texts, together
  with the blanks that follow them.
\<close>

definition isspace :: "char \<Rightarrow> bool" where
  \<comment> \<open>the code points below 256 that \<open>str.strip()\<close> and \<open>str.split()\<close> treat as whitespace\<close>
  "isspace c =
     (let n = (of_char c :: nat)
      in (9 \<le> n \<and> n \<le> 13) \<or> (28 \<le> n \<and> n \<le> 31) \<or> n = 32 \<or> n = 133 \<or> n = 160)"

definition strip :: "string \<Rightarrow> string" where
  "strip s = rev (dropWhile isspace (rev (dropWhile isspace s)))"

definition lower_char :: "char \<Rightarrow> char" where
  "lower_char c =
     (let n = (of_char c :: nat)
      in if (65 \<le> n \<and> n \<le> 90) \<or> (192 \<le> n \<and> n \<le> 222 \<and> n \<noteq> 215)
         then char_of (n + 32) else c)"

definition lower :: "string \<Rightarrow> string" where
  "lower s = map lower_char s"

definition linebreak :: "char \<Rightarrow> bool" where
  \<comment> \<open>the line boundaries of \<open>str.splitlines()\<close> below 256\<close>
  "linebreak c =
     (let n = (of_char c :: nat)
      in (10 \<le> n \<and> n \<le> 13) \<or> (28 \<le> n \<and> n \<le> 30) \<or> n = 133)"

fun splitlines_acc :: "string \<Rightarrow> string \<Rightarrow> string list" where
  "splitlines_acc acc [] = (if acc = [] then [] else [rev acc])"
| "splitlines_acc acc [c] =
     (if linebreak c then [rev acc] else [rev (c # acc)])"
| "splitlines_acc acc (c # d # cs) =
     (if c = CHR 0x0D \<and> d = CHR 0x0A then rev acc # splitlines_acc [] cs
      else if linebreak c then rev acc # splitlines_acc [] (d # cs)
      else splitlines_acc (c # acc) (d # cs))"

definition splitlines :: "string \<Rightarrow> string list" where
  "splitlines s = splitlines_acc [] s"

fun split_acc :: "string \<Rightarrow> string \<Rightarrow> string list" where
  "split_acc acc [] = (if acc = [] then [] else [rev acc])"
| "split_acc acc (c # cs) =
     (if isspace c then (if acc = [] then split_acc [] cs else rev acc # split_acc [] cs)
      else split_acc (c # acc) cs)"

definition split :: "string \<Rightarrow> string list" where
  \<comment> \<open>\<open>str.split()\<close> without a separator\<close>
  "split s = split_acc [] s"

definition startswith :: "string \<Rightarrow> string \<Rightarrow> bool" where
  "startswith s p = (take (length p) s = p)"

fun join :: "string \<Rightarrow> string list \<Rightarrow> string" where
  "join sep [] = []"
| "join sep [x] = x"
| "join sep (x # y # xs) = x @ sep @ join sep (y # xs)"

definition truthy :: "string option \<Rightarrow> bool" where
  \<comment> \<open>the truth value of a variable that holds a \<open>str\<close> or \<open>None\<close>\<close>
  "truthy v = (case v of None \<Rightarrow> False | Some s \<Rightarrow> s \<noteq> [])"

definition str_of :: "string option \<Rightarrow> string" where
  \<comment> \<open>what an f-string shows for such a variable\<close>
  "str_of v = (case v of None \<Rightarrow> ''None'' | Some s \<Rightarrow> s)"

definition quoted :: "string \<Rightarrow> string" where
  \<comment> \<open>\<open>'{s}'\<close> in an f-string\<close>
  "quoted s = [CHR 0x27] @ s @ [CHR 0x27]"

section \<open>Time\<close>

record datetime =
  year :: nat
  month :: nat
  day :: nat
  hour :: nat
  minute :: nat
  second :: nat
  microsecond :: nat

definition digit :: "nat \<Rightarrow> char" where
  "digit n = char_of (48 + n mod 10)"

definition dec2 :: "nat \<Rightarrow> string" where
  "dec2 n = [digit (n div 10), digit n]"

definition dec4 :: "nat \<Rightarrow> string" where
  "dec4 n = [digit (n div 1000), digit (n div 100), digit (n div 10), digit n]"

definition strftime_compact :: "datetime \<Rightarrow> string" where
  \<comment> \<open>\<open>strftime("%Y%m%dT%H%M%SZ")\<close>\<close>
  "strftime_compact t =
     dec4 (year t) @ dec2 (month t) @ dec2 (day t) @ ''T'' @
     dec2 (hour t) @ dec2 (minute t) @ dec2 (second t) @ ''Z''"

definition strftime_iso :: "datetime \<Rightarrow> string" where
  \<comment> \<open>\<open>strftime("%Y-%m-%dT%H:%M:%SZ")\<close>\<close>
  "strftime_iso t =
     dec4 (year t) @ ''-'' @ dec2 (month t) @ ''-'' @ dec2 (day t) @ ''T'' @
     dec2 (hour t) @ '':'' @ dec2 (minute t) @ '':'' @ dec2 (second t) @ ''Z''"






section \<open>The world outside the program\<close>

text \<open>
  Everything the program does to its surroundings is recorded, in order, in a trace:
  lines printed, prompts of \<open>input()\<close> with the line read (\<open>None\<close> at end of input),
  \<open>git\<close> commands run through \<open>subprocess.run\<close>, and lines appended to a file.
  The standard input is the list of lines not yet read.
\<close>

datatype event =
    Print string
  | Input string "string option"
  | Git "string list"
  | Log string string

record world =
  stdin :: "string list"
  trace :: "event list"

text \<open>
  The result of a \<open>git\<close> command and the reading of the clock are given by the
  environment, and may depend on all that has happened before.
\<close>

record completed =
  returncode :: int
  stdout :: string
  stderr :: string

record env =
  git :: "event list \<Rightarrow> string list \<Rightarrow> completed"
  utcnow :: "event list \<Rightarrow> datetime"

text \<open>
  A statement either completes with a value, or leaves the function that contains it:
  by an exception (\<open>EOFError\<close> from \<open>input()\<close>, \<open>TypeError\<close> from an argument list
  that holds \<open>None\<close>) or by a \<open>return\<close> inside a nested block (\<open>Returned\<close>), which
  \<open>returns\<close> ends at the boundary of the function.
  \<open>subprocess.run\<close> and the appending to the log file are taken to succeed.
\<close>

datatype signal = EOFError | TypeError | Returned

type_synonym 'a io = "world \<Rightarrow> (signal + 'a) \<times> world"

definition io_return :: "'a \<Rightarrow> 'a io" where
  "io_return x = (\<lambda>w. (Inr x, w))"

definition io_raise :: "signal \<Rightarrow> 'a io" where
  "io_raise e = (\<lambda>w. (Inl e, w))"

definition io_bind :: "'a io \<Rightarrow> ('a \<Rightarrow> 'b io) \<Rightarrow> 'b io" where
  "io_bind m k = (\<lambda>w. case m w of (Inl e, w') \<Rightarrow> (Inl e, w') | (Inr x, w') \<Rightarrow> k x w')"

definition io_seq :: "'a io \<Rightarrow> 'b io \<Rightarrow> 'b io" where
  "io_seq m k = io_bind m (\<lambda>_. k)"

definition io_when :: "bool \<Rightarrow> unit io \<Rightarrow> unit io" where
  "io_when c m = (if c then m else io_return ())"

definition returns :: "unit io \<Rightarrow> unit io" where
  "returns m = (\<lambda>w. case m w of (Inl Returned, w') \<Rightarrow> (Inr (), w') | r \<Rightarrow> r)"

definition print :: "string \<Rightarrow> unit io" where
  "print s = (\<lambda>w. (Inr (), w\<lparr>trace := trace w @ [Print s]\<rparr>))"

definition input :: "string \<Rightarrow> string io" where
  "input prompt = (\<lambda>w. case stdin w of
       [] \<Rightarrow> (Inl EOFError, w\<lparr>trace := trace w @ [Input prompt None]\<rparr>)
     | l # ls \<Rightarrow> (Inr l, w\<lparr>stdin := ls, trace := trace w @ [Input prompt (Some l)]\<rparr>))"

definition now :: "env \<Rightarrow> datetime io" where
  "now env = (\<lambda>w. (Inr (utcnow env (trace w)), w))"

definition append_line :: "string \<Rightarrow> string \<Rightarrow> unit io" where
  \<comment> \<open>\<open>open(path, "a").write(line)\<close>\<close>
  "append_line path line = (\<lambda>w. (Inr (), w\<lparr>trace := trace w @ [Log path line]\<rparr>))"

section \<open>Utility\<close>

definition PROTECTED_BRANCHES :: "string set" where
  "PROTECTED_BRANCHES =
     {''main'', ''master'', ''develop'', ''production'', ''prod'', ''staging'', ''release''}"

definition LOG_FILENAME :: string where
  "LOG_FILENAME = ''.git/git_helper_actions.log''"

definition run_git :: "env \<Rightarrow> string list \<Rightarrow> completed io" where
  "run_git env args = (\<lambda>w. (Inr (git env (trace w) args), w\<lparr>trace := trace w @ [Git args]\<rparr>))"

definition print_run_git :: "env \<Rightarrow> string list \<Rightarrow> completed io" where
  "print_run_git env args =
     io_bind (run_git env args) (\<lambda>cp.
     io_seq (io_when (stdout cp \<noteq> []) (print (strip (stdout cp))))
    (io_seq (io_when (returncode cp \<noteq> 0 \<and> stderr cp \<noteq> [])
               (print (''git '' @ join '' '' args @ '' error: '' @ strip (stderr cp))))
    (io_return cp)))"

definition confirm :: "string \<Rightarrow> bool io" where
  "confirm prompt =
     io_bind (input (prompt @ '' (y/n): '')) (\<lambda>l.
     let r = lower (strip l) in io_return (r = ''y''))"

definition typed_confirm :: "string \<Rightarrow> string \<Rightarrow> bool io" where
  "typed_confirm prompt expected =
     io_seq (print prompt)
    (io_bind (input ''Type the exact text to confirm: '') (\<lambda>l.
     let typed = strip l in io_return (typed = expected)))"

definition get_repo_root :: "env \<Rightarrow> string option io" where
  "get_repo_root env =
     io_bind (run_git env [''rev-parse'', ''--show-toplevel'']) (\<lambda>cp.
     io_return (if returncode cp \<noteq> 0 then None else Some (strip (stdout cp))))"

definition path_join :: "string \<Rightarrow> string \<Rightarrow> string" where
  \<comment> \<open>\<open>os.path.join\<close> of two components on POSIX\<close>
  "path_join a b =
     (if startswith b ''/'' then b
      else if a = [] \<or> last a = CHR ''/'' then a @ b
      else a @ ''/'' @ b)"

definition log_action :: "env \<Rightarrow> string option \<Rightarrow> string \<Rightarrow> unit io" where
  "log_action env repo_root msg =
     (if \<not> truthy repo_root then io_return ()
      else
        let log_path = path_join (str_of repo_root) LOG_FILENAME in
        io_bind (now env) (\<lambda>t.
        let ts = strftime_iso t in
        append_line log_path (''['' @ ts @ ''] '' @ msg @ ''\<newline>'')))"

definition get_current_branch :: "env \<Rightarrow> string option io" where
  "get_current_branch env =
     io_bind (run_git env [''rev-parse'', ''--abbrev-ref'', ''HEAD'']) (\<lambda>cp.
     io_return (if returncode cp \<noteq> 0 then None else Some (strip (stdout cp))))"

definition list_local_branches :: "env \<Rightarrow> string list io" where
  "list_local_branches env =
     io_bind (run_git env [''branch'', ''--format=%(refname:short)'']) (\<lambda>cp.
     io_return (if returncode cp \<noteq> 0 then []
                else map strip (filter (\<lambda>b. strip b \<noteq> []) (splitlines (stdout cp)))))"

definition remote_head :: "string \<Rightarrow> string list" where
  \<comment> \<open>the body of the loop of \<open>list_remote_branches\<close>: the names one line adds\<close>
  "remote_head line =
     (let parts = split line in
      if length parts \<ge> 2 then
        (let ref = parts ! 1 in
         if startswith ref ''refs/heads/'' then [drop (length ''refs/heads/'') ref] else [])
      else [])"

definition list_remote_branches :: "env \<Rightarrow> string \<Rightarrow> string list io" where
  "list_remote_branches env remote =
     io_bind (run_git env [''ls-remote'', ''--heads'', remote]) (\<lambda>cp.
     io_return (if returncode cp \<noteq> 0 then []
                else concat (map remote_head (splitlines (stdout cp)))))"

definition branch_exists_local :: "env \<Rightarrow> string \<Rightarrow> bool io" where
  "branch_exists_local env branch =
     io_bind (list_local_branches env) (\<lambda>bs. io_return (branch \<in> set bs))"

definition branch_exists_remote :: "env \<Rightarrow> string \<Rightarrow> string \<Rightarrow> bool io" where
  "branch_exists_remote env branch remote =
     io_bind (list_remote_branches env remote) (\<lambda>bs. io_return (branch \<in> set bs))"

definition choose_primary_branch :: "env \<Rightarrow> string option io" where
  "choose_primary_branch env =
     io_bind (list_local_branches env) (\<lambda>locals.
     let candidates = [''develop'', ''main'', ''master''] in
     io_return (case find (\<lambda>c. c \<in> set locals) candidates of
                  Some c \<Rightarrow> Some c
                | None \<Rightarrow> (case locals of [] \<Rightarrow> None | b # _ \<Rightarrow> Some b)))"

definition is_merged_into :: "env \<Rightarrow> string \<Rightarrow> string \<Rightarrow> bool io" where
  "is_merged_into env source target =
     io_bind (run_git env [''merge-base'', ''--is-ancestor'', source, target]) (\<lambda>cp.
     io_return (returncode cp = 0))"

definition show_commits_unique :: "env \<Rightarrow> string \<Rightarrow> string \<Rightarrow> string io" where
  "show_commits_unique env source target =
     io_bind (run_git env [''log'', ''--oneline'', target @ ''..'' @ source]) (\<lambda>cp.
     io_return (if returncode cp \<noteq> 0 then strip (stderr cp)
                else if strip (stdout cp) \<noteq> [] then strip (stdout cp)
                else ''(no unique commits)''))"

definition create_backup_tag_push :: "env \<Rightarrow> string \<Rightarrow> string option \<Rightarrow> unit io" where
  \<comment> \<open>lines 124 to 130 of \<open>create_backup_tag\<close>\<close>
  "create_backup_tag_push env safe_tag repo_root =
     io_bind (confirm ''Push the backup tag to 'origin'?'') (\<lambda>yes.
     io_when yes
       (io_bind (run_git env [''push'', ''origin'', safe_tag]) (\<lambda>cp2.
        if returncode cp2 = 0 then
          io_seq (print (''Pushed tag '' @ safe_tag @ '' to origin''))
                 (log_action env repo_root (''Pushed tag '' @ safe_tag @ '' to origin''))
        else print (''Failed to push tag: '' @ strip (stderr cp2)))))"

definition create_backup_tag :: "env \<Rightarrow> string \<Rightarrow> string option \<Rightarrow> string option io" where
  "create_backup_tag env branch repo_root =
     io_bind (now env) (\<lambda>t.
     let ts = strftime_compact t;
         safe_tag = ''backup/'' @ branch @ ''/'' @ ts in
     io_bind (run_git env [''tag'', safe_tag, branch]) (\<lambda>cp.
     if returncode cp \<noteq> 0 then
       io_seq (print (''Failed to create tag '' @ safe_tag @ '': '' @ strip (stderr cp)))
              (io_return None)
     else
       io_seq (print (''Created backup tag: '' @ safe_tag))
      (io_seq (log_action env repo_root
                 (''Created backup tag '' @ safe_tag @ '' for branch '' @ branch))
      (io_bind (branch_exists_remote env branch ''origin'') (\<lambda>on_remote.
       io_seq (io_when on_remote (create_backup_tag_push env safe_tag repo_root))
              (io_return (Some safe_tag)))))))"

definition is_working_tree_clean :: "env \<Rightarrow> bool io" where
  "is_working_tree_clean env =
     io_bind (run_git env [''status'', ''--porcelain'']) (\<lambda>cp.
     io_return (if returncode cp \<noteq> 0 then False else strip (stdout cp) = []))"

definition check_git_repo :: "env \<Rightarrow> bool io" where
  "check_git_repo env =
     io_bind (run_git env [''rev-parse'', ''--is-inside-work-tree'']) (\<lambda>cp.
     if returncode cp \<noteq> 0 then
       io_seq (print ''Not inside a Git repository. Run setup first.'') (io_return False)
     else io_return True)"

section \<open>Delete Branch (SAFE)\<close>

text \<open>
  \<open>delete_branch\<close> is one function of a hundred lines. Its blocks are given names, in
  the order of the source; the line numbers are those of \<open>GITCHEAT.py\<close>.
\<close>

definition delete_branch_select ::
  "env \<Rightarrow> (string option \<times> string option \<times> string \<times> string) io" where
  \<comment> \<open>lines 237 to 253: the repository, the scope and the name of the branch\<close>
  "delete_branch_select env =
     io_bind (check_git_repo env) (\<lambda>ok.
     if \<not> ok then io_raise Returned else
     io_bind (get_repo_root env) (\<lambda>repo_root.
     io_bind (get_current_branch env) (\<lambda>current.
     io_seq (print (''Current branch: '' @ str_of current))
    (io_seq (print ''Delete branch options:'')
    (io_seq (print ''  1) Delete local branch'')
    (io_seq (print ''  2) Delete remote branch (origin)'')
    (io_seq (print ''  3) Delete both local and remote'')
    (io_bind (input ''> '') (\<lambda>l.
     let choice = strip l in
     if choice \<notin> {''1'', ''2'', ''3''} then
       io_seq (print ''Invalid choice.'') (io_raise Returned)
     else
     io_bind (input ''Branch name to delete: '') (\<lambda>l.
     let branch = strip l in
     if branch = [] then
       io_seq (print ''Branch name cannot be empty.'') (io_raise Returned)
     else io_return (repo_root, current, choice, branch)))))))))))"

definition delete_branch_protected :: "string \<Rightarrow> unit io" where
  \<comment> \<open>lines 255 to 262\<close>
  "delete_branch_protected branch =
     io_when (branch \<in> PROTECTED_BRANCHES)
       (io_seq (print (quoted branch @ '' is a protected branch by default.''))
       (let confirm_phrase = ''DELETE '' @ branch in
        io_seq (print (''To proceed you must type exactly: '' @ confirm_phrase))
       (io_bind (typed_confirm ''Protected-branch deletion confirmation'' confirm_phrase) (\<lambda>ok.
        io_when (\<not> ok)
          (io_seq (print ''Aborted protected-branch deletion.'') (io_raise Returned))))))"

definition delete_branch_switch :: "env \<Rightarrow> unit io" where
  \<comment> \<open>lines 270 to 278: the branch to delete is the current one\<close>
  "delete_branch_switch env =
     io_seq (print ''You are currently on the branch you want to delete.'')
    (io_bind (choose_primary_branch env) (\<lambda>safe_target.
     io_seq (io_when (truthy safe_target)
               (print (''Suggested safe branch to switch to: '' @ str_of safe_target)))
    (io_bind (confirm ''Switch to the suggested safe branch and continue?'') (\<lambda>yes.
     if yes then
       (case safe_target of
          None \<Rightarrow> io_raise TypeError
        | Some t \<Rightarrow> io_seq (print_run_git env [''checkout'', t]) (io_return ()))
     else
       io_seq (print ''Abort: please checkout a different branch before deleting.'')
              (io_raise Returned)))))"

definition delete_branch_merged ::
  "env \<Rightarrow> string option \<Rightarrow> string \<Rightarrow> string option \<Rightarrow> unit io" where
  \<comment> \<open>lines 283 to 290\<close>
  "delete_branch_merged env repo_root branch primary =
     io_seq (print (''Branch '' @ quoted branch @ '' appears merged into '' @
                    quoted (str_of primary) @ ''. Safe to delete locally.''))
    (io_bind (confirm (''Delete local branch '' @ quoted branch @ ''?'')) (\<lambda>yes.
     io_when yes
       (io_bind (run_git env [''branch'', ''-d'', branch]) (\<lambda>cp.
        if returncode cp = 0 then
          io_seq (print (''Deleted local branch '' @ quoted branch @ ''.''))
                 (log_action env repo_root (''Deleted local branch '' @ branch))
        else print (''Failed to delete locally: '' @ strip (stderr cp))))))"

definition delete_branch_backup :: "env \<Rightarrow> string option \<Rightarrow> string \<Rightarrow> unit io" where
  \<comment> \<open>lines 300 to 303\<close>
  "delete_branch_backup env repo_root branch =
     io_bind (confirm ''Create a backup tag for this branch before deleting?'') (\<lambda>yes.
     io_when yes
       (io_bind (create_backup_tag env branch repo_root) (\<lambda>tag.
        io_when (truthy tag) (print (''Backup tag created: '' @ str_of tag)))))"

definition delete_branch_force :: "env \<Rightarrow> string option \<Rightarrow> string \<Rightarrow> unit io" where
  \<comment> \<open>lines 304 to 314\<close>
  "delete_branch_force env repo_root branch =
     io_seq (print ''To force-delete this unmerged local branch, you must type the exact branch name.'')
    (io_bind (typed_confirm ''Force-delete confirmation'' branch) (\<lambda>ok.
     if ok then
       io_bind (run_git env [''branch'', ''-D'', branch]) (\<lambda>cp.
       if returncode cp = 0 then
         io_seq (print (''Force-deleted local branch '' @ quoted branch @ ''.''))
                (log_action env repo_root (''Force-deleted local branch '' @ branch))
       else print (''Failed to force-delete: '' @ strip (stderr cp)))
     else print ''Aborted local deletion.''))"

definition delete_branch_unmerged ::
  "env \<Rightarrow> string option \<Rightarrow> string \<Rightarrow> string option \<Rightarrow> unit io" where
  \<comment> \<open>lines 292 to 314\<close>
  "delete_branch_unmerged env repo_root branch primary =
     io_seq (if truthy primary then
               print (''Branch '' @ quoted branch @ '' does NOT appear merged into '' @
                      quoted (str_of primary) @ ''.'')
             else print ''Could not determine a primary branch to check merge status.'')
    (io_bind (show_commits_unique env branch (if truthy primary then str_of primary else ''HEAD''))
       (\<lambda>commits.
     io_seq (print ''\<newline>Commits that are unique to the branch (would be lost):'')
    (io_seq (print commits)
    (io_seq (delete_branch_backup env repo_root branch)
            (delete_branch_force env repo_root branch)))))"

definition delete_branch_safety :: "env \<Rightarrow> string option \<Rightarrow> string \<Rightarrow> unit io" where
  \<comment> \<open>lines 280 to 314; \<open>and\<close> does not evaluate its right side when the left is false\<close>
  "delete_branch_safety env repo_root branch =
     io_bind (choose_primary_branch env) (\<lambda>primary.
     io_bind (if truthy primary then is_merged_into env branch (str_of primary)
              else io_return False) (\<lambda>merged.
     if merged then delete_branch_merged env repo_root branch primary
     else delete_branch_unmerged env repo_root branch primary))"

definition delete_branch_local ::
  "env \<Rightarrow> string option \<Rightarrow> string option \<Rightarrow> string \<Rightarrow> unit io" where
  \<comment> \<open>lines 266 to 314\<close>
  "delete_branch_local env repo_root current branch =
     io_bind (branch_exists_local env branch) (\<lambda>found.
     if \<not> found then print (''Local branch '' @ quoted branch @ '' not found.'')
     else
       io_seq (io_when (Some branch = current) (delete_branch_switch env))
              (delete_branch_safety env repo_root branch))"

definition delete_branch_remote_missing :: "string \<Rightarrow> unit io" where
  \<comment> \<open>lines 325 to 328\<close>
  "delete_branch_remote_missing branch =
     io_seq (print (''Remote branch '' @ quoted (''origin/'' @ branch) @ '' not found.''))
    (io_bind (confirm ''Do you still want to attempt remote deletion?'') (\<lambda>yes.
     io_when (\<not> yes) (io_raise Returned)))"

definition delete_branch_remote_confirm :: "env \<Rightarrow> string option \<Rightarrow> string \<Rightarrow> unit io" where
  \<comment> \<open>lines 330 to 341\<close>
  "delete_branch_remote_confirm env repo_root branch =
     io_seq (print ''To delete the remote branch, type the exact branch name to confirm.'')
    (io_bind (typed_confirm ''Remote-delete confirmation'' branch) (\<lambda>ok.
     if \<not> ok then io_seq (print ''Aborted remote deletion.'') (io_raise Returned)
     else
       io_bind (run_git env [''push'', ''origin'', ''--delete'', branch]) (\<lambda>cp.
       if returncode cp = 0 then
         io_seq (print (''Deleted remote branch '' @ quoted (''origin/'' @ branch) @ ''.''))
                (log_action env repo_root (''Deleted remote branch origin/'' @ branch))
       else print (''Failed to delete remote branch: '' @ strip (stderr cp)))))"

definition delete_branch_remote :: "env \<Rightarrow> string option \<Rightarrow> string \<Rightarrow> unit io" where
  \<comment> \<open>lines 318 to 341\<close>
  "delete_branch_remote env repo_root branch =
     io_bind (run_git env [''remote'']) (\<lambda>cp_rem.
     let remotes = (if returncode cp_rem = 0 then split (stdout cp_rem) else []) in
     if ''origin'' \<notin> set remotes then
       io_seq (print ''Remote 'origin' not configured; cannot delete remote branch.'')
              (io_raise Returned)
     else
       io_bind (branch_exists_remote env branch ''origin'') (\<lambda>found.
       io_seq (io_when (\<not> found) (delete_branch_remote_missing branch))
              (delete_branch_remote_confirm env repo_root branch)))"

definition delete_branch :: "env \<Rightarrow> unit io" where
  "delete_branch env =
     returns
       (io_bind (delete_branch_select env) (\<lambda>(repo_root, current, choice, branch).
        io_seq (delete_branch_protected branch)
       (io_seq (io_when (choice \<in> {''1'', ''3''})
                  (delete_branch_local env repo_root current branch))
               (io_when (choice \<in> {''2'', ''3''})
                  (delete_branch_remote env repo_root branch)))))"

section \<open>Push Staging -> Main (SAFE)\<close>

definition io_or :: "bool io \<Rightarrow> bool io \<Rightarrow> bool io" where
  \<comment> \<open>\<open>a or b\<close>: \<open>b\<close> is evaluated only when \<open>a\<close> is false\<close>
  "io_or a b = io_bind a (\<lambda>x. if x then io_return True else b)"

definition push_staging_to_main_track_staging :: "env \<Rightarrow> bool \<Rightarrow> bool \<Rightarrow> bool io" where
  \<comment> \<open>lines 356 to 362; the result is the new value of \<open>staging_local\<close>\<close>
  "push_staging_to_main_track_staging env staging_local staging_remote =
     (if \<not> staging_local \<and> staging_remote then
        io_bind (confirm ''Local 'staging' not found. Create tracking branch from origin/staging?'')
          (\<lambda>yes.
        if yes then
          io_bind (run_git env [''checkout'', ''-b'', ''staging'', ''origin/staging'']) (\<lambda>cp.
          if returncode cp \<noteq> 0 then
            io_seq (print ''Failed to create local staging from origin/staging.'')
                   (io_raise Returned)
          else io_return True)
        else io_return staging_local)
      else io_return staging_local)"

definition push_staging_to_main_track_main :: "env \<Rightarrow> bool \<Rightarrow> bool \<Rightarrow> bool io" where
  \<comment> \<open>lines 364 to 372; the result is the new value of \<open>main_local\<close>\<close>
  "push_staging_to_main_track_main env main_local main_remote =
     (if \<not> main_local \<and> main_remote then
        io_bind (branch_exists_remote env ''main'' ''origin'') (\<lambda>has_main.
        let remote_main = (if has_main then ''main'' else ''master'') in
        io_bind (confirm (''Local main/master not found. Create tracking branch from origin/'' @
                          remote_main @ ''?'')) (\<lambda>yes.
        if yes then
          io_bind (run_git env [''checkout'', ''-b'', remote_main, ''origin/'' @ remote_main])
            (\<lambda>cp.
          if returncode cp \<noteq> 0 then
            io_seq (print (''Failed to create local '' @ remote_main @ '' from origin/'' @
                           remote_main @ ''.''))
                   (io_raise Returned)
          else io_return True)
        else io_return main_local))
      else io_return main_local)"

definition push_staging_to_main_resolve :: "env \<Rightarrow> string option io" where
  \<comment> \<open>lines 346 to 379; the result is \<open>repo_root\<close>\<close>
  "push_staging_to_main_resolve env =
     io_bind (check_git_repo env) (\<lambda>ok.
     if \<not> ok then io_raise Returned else
     io_bind (get_repo_root env) (\<lambda>repo_root.
     io_bind (branch_exists_local env ''staging'') (\<lambda>staging_local.
     io_bind (io_or (branch_exists_local env ''main'') (branch_exists_local env ''master''))
       (\<lambda>main_local.
     io_bind (branch_exists_remote env ''staging'' ''origin'') (\<lambda>staging_remote.
     io_bind (io_or (branch_exists_remote env ''main'' ''origin'')
                    (branch_exists_remote env ''master'' ''origin'')) (\<lambda>main_remote.
     io_bind (push_staging_to_main_track_staging env staging_local staging_remote)
       (\<lambda>staging_local.
     io_bind (push_staging_to_main_track_main env main_local main_remote) (\<lambda>main_local.
     if \<not> (staging_local \<or> staging_remote) then
       io_seq (print ''No staging branch found locally or on origin. Aborting.'')
              (io_raise Returned)
     else if \<not> (main_local \<or> main_remote) then
       io_seq (print ''No main/master branch found locally or on origin. Aborting.'')
              (io_raise Returned)
     else io_return repo_root))))))))"

definition push_staging_to_main_clean :: "env \<Rightarrow> unit io" where
  \<comment> \<open>lines 381 to 386\<close>
  "push_staging_to_main_clean env =
     io_bind (is_working_tree_clean env) (\<lambda>clean.
     io_when (\<not> clean)
       (io_seq (print ''Working tree is not clean. Please commit or stash changes before deploying to main.'')
       (io_bind (confirm ''Proceed despite uncommitted changes?'') (\<lambda>yes.
        io_when (\<not> yes)
          (io_seq (print ''Aborted due to dirty working tree.'') (io_raise Returned))))))"

definition push_staging_to_main_pull :: "env \<Rightarrow> string io" where
  \<comment> \<open>lines 388 to 394; the result is \<open>chosen_main\<close>\<close>
  "push_staging_to_main_pull env =
     io_seq (print_run_git env [''checkout'', ''staging''])
    (io_seq (print_run_git env [''pull'', ''origin'', ''staging''])
    (io_bind (io_or (branch_exists_local env ''main'') (branch_exists_remote env ''main'' ''origin''))
       (\<lambda>has_main.
     let chosen_main = (if has_main then ''main'' else ''master'') in
     io_seq (print_run_git env [''checkout'', chosen_main])
    (io_seq (print_run_git env [''pull'', ''origin'', chosen_main])
            (io_return chosen_main)))))"

definition push_staging_to_main_backup :: "env \<Rightarrow> string option \<Rightarrow> string \<Rightarrow> unit io" where
  \<comment> \<open>lines 396 to 400\<close>
  "push_staging_to_main_backup env repo_root chosen_main =
     io_bind (confirm (''Create a backup tag for '' @ quoted chosen_main @ '' before merging?''))
       (\<lambda>yes.
     io_when yes
       (io_bind (create_backup_tag env chosen_main repo_root) (\<lambda>tag.
        io_when (truthy tag) (print (''Backup tag created: '' @ str_of tag)))))"

definition push_staging_to_main_confirm :: "string \<Rightarrow> unit io" where
  \<comment> \<open>lines 402 to 408\<close>
  "push_staging_to_main_confirm chosen_main =
     (let confirm_phrase = ''PUSH STAGING TO MAIN'' in
      io_seq (print (''This will merge 'staging' into '' @ quoted chosen_main @
                     '' and push to origin.''))
     (io_seq (print (''To confirm, type exactly: '' @ confirm_phrase))
     (io_bind (typed_confirm ''Final confirmation'' confirm_phrase) (\<lambda>ok.
      io_when (\<not> ok) (io_seq (print ''Aborted push staging->main.'') (io_raise Returned))))))"

definition push_staging_to_main_merge :: "env \<Rightarrow> string option \<Rightarrow> string \<Rightarrow> unit io" where
  \<comment> \<open>lines 410 to 424\<close>
  "push_staging_to_main_merge env repo_root chosen_main =
     io_bind (run_git env [''merge'', ''staging'']) (\<lambda>cp.
     if returncode cp \<noteq> 0 then
       io_seq (print ''Merge failed or produced conflicts. Resolve manually, then push. Aborting push.'')
      (io_seq (io_when (stderr cp \<noteq> []) (print (strip (stderr cp))))
              (io_raise Returned))
     else
       io_bind (run_git env [''push'', ''origin'', chosen_main]) (\<lambda>cp2.
       if returncode cp2 = 0 then
         io_seq (print (''Successfully pushed '' @ quoted chosen_main @ '' to origin.''))
                (log_action env repo_root
                   (''Merged staging into '' @ chosen_main @ '' and pushed to origin''))
       else print (''Failed to push '' @ chosen_main @ '': '' @ strip (stderr cp2))))"

definition push_staging_to_main :: "env \<Rightarrow> unit io" where
  "push_staging_to_main env =
     returns
       (io_bind (push_staging_to_main_resolve env) (\<lambda>repo_root.
        io_seq (push_staging_to_main_clean env)
       (io_bind (push_staging_to_main_pull env) (\<lambda>chosen_main.
        io_seq (push_staging_to_main_backup env repo_root chosen_main)
       (io_seq (push_staging_to_main_confirm chosen_main)
               (push_staging_to_main_merge env repo_root chosen_main))))))"

section \<open>What a run emits\<close>

definition emitted :: "'a io \<Rightarrow> world \<Rightarrow> event list" where
  \<comment> \<open>the events that the run of \<open>m\<close> from \<open>w\<close> adds to the trace\<close>
  "emitted m w = drop (length (trace w)) (trace (snd (m w)))"

definition only :: "(event \<Rightarrow> bool) \<Rightarrow> 'a io \<Rightarrow> bool" where
  \<comment> \<open>every run of \<open>m\<close> extends the trace, and only by events that satisfy \<open>P\<close>\<close>
  "only P m = (\<forall>w. \<exists>es. trace (snd (m w)) = trace w @ es \<and> list_all P es)"

definition marks ::
  "(event \<Rightarrow> bool) \<Rightarrow> (event list \<Rightarrow> event list \<Rightarrow> event \<Rightarrow> event list \<Rightarrow> bool \<Rightarrow> bool) \<Rightarrow>
   'a io \<Rightarrow> bool" where
  \<comment> \<open>every run of \<open>m\<close> extends the trace, and for every emitted event \<open>x\<close> that satisfies
      \<open>X\<close> the property \<open>F\<close> holds of the trace at the start, the events emitted before
      \<open>x\<close>, \<open>x\<close>, the events emitted after it, and whether the run left by a signal\<close>
  "marks X F m =
     (\<forall>w. \<exists>es. trace (snd (m w)) = trace w @ es \<and>
        (\<forall>pre x post. es = pre @ x # post \<longrightarrow> X x \<longrightarrow>
           F (trace w) pre x post (isl (fst (m w)))))"

definition shifts ::
  "(event \<Rightarrow> bool) \<Rightarrow> (event list \<Rightarrow> event list \<Rightarrow> event \<Rightarrow> event list \<Rightarrow> bool \<Rightarrow> bool) \<Rightarrow> bool"
  where
  \<comment> \<open>\<open>F\<close> is kept when events without mark move from the trace at the start to the
      events emitted before the marked one\<close>
  "shifts X F =
     (\<forall>h es1 pre x post b. list_all (\<lambda>e. \<not> X e) es1 \<longrightarrow> X x \<longrightarrow>
        F (h @ es1) pre x post b \<longrightarrow> F h (es1 @ pre) x post b)"

definition shifts_with ::
  "(event \<Rightarrow> bool) \<Rightarrow> (event \<Rightarrow> bool) \<Rightarrow>
   (event list \<Rightarrow> event list \<Rightarrow> event \<Rightarrow> event list \<Rightarrow> bool \<Rightarrow> bool) \<Rightarrow> bool"
  where
  \<comment> \<open>the same for events that satisfy \<open>P\<close>, none of which has the mark\<close>
  "shifts_with P X F =
     ((\<forall>e. P e \<longrightarrow> \<not> X e) \<and>
      (\<forall>h es1 pre x post b. list_all P es1 \<longrightarrow> X x \<longrightarrow>
         F (h @ es1) pre x post b \<longrightarrow> F h (es1 @ pre) x post b))"

definition keeps ::
  "(event \<Rightarrow> bool) \<Rightarrow> (event list \<Rightarrow> event list \<Rightarrow> event \<Rightarrow> event list \<Rightarrow> bool \<Rightarrow> bool) \<Rightarrow> bool"
  where
  \<comment> \<open>\<open>F\<close> of a run that went on is kept when events without mark follow\<close>
  "keeps X F =
     (\<forall>h pre x post post' b. X x \<longrightarrow> F h pre x post False \<longrightarrow>
        list_all (\<lambda>e. \<not> X e) post' \<longrightarrow> F h pre x (post @ post') b)"

definition query :: "string list \<Rightarrow> bool" where
  \<comment> \<open>the \<open>git\<close> commands of the program that only read the repository\<close>
  "query args =
     (args = [''rev-parse'', ''--is-inside-work-tree''] \<or>
      args = [''rev-parse'', ''--show-toplevel''] \<or>
      args = [''rev-parse'', ''--abbrev-ref'', ''HEAD''] \<or>
      args = [''branch'', ''--format=%(refname:short)''] \<or>
      args = [''status'', ''--porcelain''] \<or>
      args = [''remote''] \<or>
      take 2 args = [''ls-remote'', ''--heads''] \<and> length args = 3 \<or>
      take 2 args = [''merge-base'', ''--is-ancestor''] \<and> length args = 4 \<or>
      take 2 args = [''log'', ''--oneline''] \<and> length args = 3)"

definition effect :: "event \<Rightarrow> bool" where
  \<comment> \<open>a \<open>git\<close> command that is not a query, or a line written to the audit log\<close>
  "effect e = (case e of Git args \<Rightarrow> \<not> query args | Log _ _ \<Rightarrow> True | _ \<Rightarrow> False)"

definition tracking_checkout :: "event \<Rightarrow> bool" where
  \<comment> \<open>the creation of a local tracking branch, lines 358 and 368\<close>
  "tracking_checkout e =
     (e = Git [''checkout'', ''-b'', ''staging'', ''origin/staging''] \<or>
      e = Git [''checkout'', ''-b'', ''main'', ''origin/main''] \<or>
      e = Git [''checkout'', ''-b'', ''master'', ''origin/master''])"

definition promotion_entry :: "string \<Rightarrow> bool" where
  \<comment> \<open>a line of the audit log whose message, after the 23 characters of the time stamp
      in brackets and the blank, is that of line 422\<close>
  "promotion_entry line = startswith (drop 23 line) ''Merged staging into ''"


definition delete_command :: "string \<Rightarrow> event \<Rightarrow> bool" where
  \<comment> \<open>the three commands that delete the branch: local, forced, remote\<close>
  "delete_command branch e =
     (e = Git [''branch'', ''-d'', branch] \<or> e = Git [''branch'', ''-D'', branch] \<or>
      e = Git [''push'', ''origin'', ''--delete'', branch])"

section \<open>An environment for examples\<close>

definition scripted :: "(string list \<times> completed) list \<Rightarrow> env" where
  \<comment> \<open>\<open>git\<close> answers from a table of argument lists, and succeeds with no output for the
      rest; the clock stands still\<close>
  "scripted tbl =
     \<lparr>git = (\<lambda>h args. case map_of tbl args of
                Some cp \<Rightarrow> cp
              | None \<Rightarrow> \<lparr>returncode = 0, stdout = [], stderr = []\<rparr>),
      utcnow = (\<lambda>h. \<lparr>year = 2026, month = 11, day = 4, hour = 9, minute = 30, second = 15,
                      microsecond = 0\<rparr>)\<rparr>"

definition out :: "string \<Rightarrow> completed" where
  "out s = \<lparr>returncode = 0, stdout = s, stderr = []\<rparr>"

definition failed :: "string \<Rightarrow> completed" where
  "failed s = \<lparr>returncode = 1, stdout = [], stderr = s\<rparr>"

section \<open>Properties of the string functions\<close>

lemma char_of_nat_eq_iff: "char_of (n::nat) = c \<longleftrightarrow> n mod 256 = of_char c"
  by (simp add: char_of_eq_iff take_bit_eq_mod)

lemma lower_char_eq_y: "lower_char c = CHR ''y'' \<longleftrightarrow> c = CHR ''y'' \<or> c = CHR ''Y''"
proof -
  have lt: "(of_char c :: nat) < 256" by simp
  have Y: "c = CHR ''Y'' \<longleftrightarrow> (of_char c :: nat) = of_char CHR ''Y''"
    by (simp only: of_char_eq_iff)
  show ?thesis unfolding Y
    using lt by (auto simp: lower_char_def Let_def char_of_nat_eq_iff)
qed

lemma lower_eq_y: "lower s = ''y'' \<longleftrightarrow> s = ''y'' \<or> s = ''Y''"
  by (cases s) (auto simp: lower_def lower_char_eq_y)

section \<open>Reasoning about runs\<close>

lemmas io_defs = io_bind_def io_seq_def io_return_def io_raise_def io_when_def
  print_def input_def run_git_def now_def append_line_def returns_def io_or_def

lemma emitted_eq:
  "trace (snd (m w)) = trace w @ es \<Longrightarrow> emitted m w = es"
  by (simp add: emitted_def)

subsection \<open>Runs that emit only events of one kind\<close>

lemma only_mono: "only P m \<Longrightarrow> (\<And>e. P e \<Longrightarrow> P' e) \<Longrightarrow> only P' m"
  unfolding only_def list_all_iff by blast

lemma only_return: "only P (io_return x)"
  by (simp add: only_def io_return_def)

lemma only_raise: "only P (io_raise e)"
  by (simp add: only_def io_raise_def)

lemma only_bind:
  assumes "only P m" and "\<And>x. only P (k x)"
  shows "only P (io_bind m k)"
  unfolding only_def
proof
  fix w
  obtain es where es: "trace (snd (m w)) = trace w @ es" "list_all P es"
    using assms(1) unfolding only_def by blast
  show "\<exists>es. trace (snd (io_bind m k w)) = trace w @ es \<and> list_all P es"
  proof (cases "m w")
    case (Pair r w1)
    show ?thesis
    proof (cases r)
      case (Inl e)
      with Pair es show ?thesis by (auto simp: io_bind_def)
    next
      case (Inr x)
      obtain es2 where "trace (snd (k x w1)) = trace w1 @ es2" "list_all P es2"
        using assms(2)[of x] unfolding only_def by blast
      with Pair Inr es show ?thesis by (auto simp: io_bind_def)
    qed
  qed
qed

lemma only_seq: "only P m \<Longrightarrow> only P k \<Longrightarrow> only P (io_seq m k)"
  by (simp add: io_seq_def only_bind)

lemma only_when: "(c \<Longrightarrow> only P m) \<Longrightarrow> only P (io_when c m)"
  by (simp add: io_when_def only_return)

lemma only_if: "(c \<Longrightarrow> only P a) \<Longrightarrow> (\<not> c \<Longrightarrow> only P b) \<Longrightarrow> only P (if c then a else b)"
  by simp

lemma only_let: "only P (f x) \<Longrightarrow> only P (Let x f)"
  by simp

lemma only_case_option:
  "(v = None \<Longrightarrow> only P a) \<Longrightarrow> (\<And>x. v = Some x \<Longrightarrow> only P (b x)) \<Longrightarrow>
   only P (case v of None \<Rightarrow> a | Some x \<Rightarrow> b x)"
  by (cases v) simp_all

lemma only_case_prod: "(\<And>a b. only P (f a b)) \<Longrightarrow> only P (case p of (a, b) \<Rightarrow> f a b)"
  by (cases p) simp

lemma only_or: "only P a \<Longrightarrow> only P b \<Longrightarrow> only P (io_or a b)"
  by (simp add: io_or_def only_bind only_return)

lemma only_returns: "only P m \<Longrightarrow> only P (returns m)"
  unfolding only_def returns_def
  by (auto split: prod.splits sum.splits signal.splits) (metis snd_conv)+

lemma only_print: "P (Print s) \<Longrightarrow> only P (print s)"
  by (simp add: only_def print_def)

lemma only_input: "(\<And>x. P (Input p x)) \<Longrightarrow> only P (input p)"
  by (auto simp: only_def input_def split: list.splits)

lemma only_run_git: "P (Git args) \<Longrightarrow> only P (run_git env args)"
  by (simp add: only_def run_git_def)

lemma only_now: "only P (now env)"
  by (simp add: only_def now_def)

lemma only_append_line: "P (Log p l) \<Longrightarrow> only P (append_line p l)"
  by (simp add: only_def append_line_def)

lemmas only_intros = only_return only_raise only_bind only_seq only_when only_if only_let
  only_case_option only_case_prod only_or only_returns only_print only_input only_run_git
  only_now only_append_line

lemma only_confirm: "(\<And>x. P (Input (p @ '' (y/n): '') x)) \<Longrightarrow> only P (confirm p)"
  unfolding confirm_def by (intro only_intros) simp_all

subsection \<open>Runs and their marked events\<close>

lemma marks_only: 
  assumes "only (\<lambda>e. \<not> X e) m" shows "marks X F m"
  unfolding marks_def
proof
  fix w
  obtain es where es: "trace (snd (m w)) = trace w @ es" "list_all (\<lambda>e. \<not> X e) es"
    using assms unfolding only_def by blast
  have "\<And>pre x post. es = pre @ x # post \<Longrightarrow> X x \<Longrightarrow> False"
    using es(2) by (auto simp: list_all_iff)
  with es(1) show "\<exists>es. trace (snd (m w)) = trace w @ es \<and>
        (\<forall>pre x post. es = pre @ x # post \<longrightarrow> X x \<longrightarrow> F (trace w) pre x post (isl (fst (m w))))"
    by blast
qed

lemma split_in_second:
  assumes "list_all (\<lambda>e. \<not> X e) es1" and "es1 @ es2 = pre @ x # post" and "X x"
  shows "\<exists>pre'. pre = es1 @ pre' \<and> es2 = pre' @ x # post"
proof -
  from assms(2) obtain us where
    "(es1 = pre @ us \<and> us @ es2 = x # post) \<or> (es1 @ us = pre \<and> es2 = us @ x # post)"
    by (auto simp: append_eq_append_conv2)
  then show ?thesis
  proof
    assume a: "es1 = pre @ us \<and> us @ es2 = x # post"
    show ?thesis
    proof (cases us)
      case Nil
      with a show ?thesis by simp
    next
      case (Cons u us')
      with a have "x \<in> set es1" by auto
      with assms(1,3) show ?thesis by (auto simp: list_all_iff)
    qed
  next
    assume "es1 @ us = pre \<and> es2 = us @ x # post"
    then show ?thesis by auto
  qed
qed

lemma split_in_first:
  assumes "list_all (\<lambda>e. \<not> X e) es2" and "es1 @ es2 = pre @ x # post" and "X x"
  shows "\<exists>post'. post = post' @ es2 \<and> es1 = pre @ x # post'"
proof -
  from assms(2) obtain us where
    "(es1 = pre @ us \<and> us @ es2 = x # post) \<or> (es1 @ us = pre \<and> es2 = us @ x # post)"
    by (auto simp: append_eq_append_conv2)
  then show ?thesis
  proof
    assume a: "es1 = pre @ us \<and> us @ es2 = x # post"
    show ?thesis
    proof (cases us)
      case Nil
      with a have "x \<in> set es2" by (metis append_Nil list.set_intros(1))
      with assms(1,3) show ?thesis by (auto simp: list_all_iff)
    next
      case (Cons u us')
      with a show ?thesis by auto
    qed
  next
    assume "es1 @ us = pre \<and> es2 = us @ x # post"
    then have "x \<in> set es2" by auto
    with assms(1,3) show ?thesis by (auto simp: list_all_iff)
  qed
qed

lemma marks_bind_pre:
  assumes a: "only P a" and PX: "\<And>e. P e \<Longrightarrow> \<not> X e" and k: "\<And>v. marks X F (k v)"
    and shift: "\<And>h es1 pre x post b. list_all P es1 \<Longrightarrow> X x \<Longrightarrow>
                  F (h @ es1) pre x post b \<Longrightarrow> F h (es1 @ pre) x post b"
  shows "marks X F (io_bind a k)"
  unfolding marks_def
proof
  fix w
  obtain es1 where es1: "trace (snd (a w)) = trace w @ es1" "list_all P es1"
    using a unfolding only_def by blast
  have nX: "list_all (\<lambda>e. \<not> X e) es1"
    using es1(2) PX by (auto simp: list_all_iff)
  obtain r w1 where aw: "a w = (r, w1)" by (cases "a w")
  show "\<exists>es. trace (snd (io_bind a k w)) = trace w @ es \<and>
        (\<forall>pre x post. es = pre @ x # post \<longrightarrow> X x \<longrightarrow>
           F (trace w) pre x post (isl (fst (io_bind a k w))))"
  proof (cases r)
    case (Inl e)
    then have "io_bind a k w = (Inl e, w1)" using aw by (simp add: io_bind_def)
    moreover have "\<And>pre x post. es1 = pre @ x # post \<Longrightarrow> X x \<Longrightarrow> False"
      using nX by (auto simp: list_all_iff)
    ultimately show ?thesis using es1(1) aw by auto
  next
    case (Inr v)
    then have run: "io_bind a k w = k v w1" using aw by (simp add: io_bind_def)
    obtain es2 where es2: "trace (snd (k v w1)) = trace w1 @ es2"
      and F2: "\<And>pre x post. es2 = pre @ x # post \<Longrightarrow> X x \<Longrightarrow>
                 F (trace w1) pre x post (isl (fst (k v w1)))"
      using k[of v] unfolding marks_def by blast
    have w1: "trace w1 = trace w @ es1" using es1(1) aw by simp
    have "\<And>pre x post. es1 @ es2 = pre @ x # post \<Longrightarrow> X x \<Longrightarrow>
             F (trace w) pre x post (isl (fst (k v w1)))"
    proof -
      fix pre x post assume eq: "es1 @ es2 = pre @ x # post" and X: "X x"
      from split_in_second[OF nX eq X] obtain pre' where
        p: "pre = es1 @ pre'" "es2 = pre' @ x # post" by blast
      from F2[OF p(2) X] have "F (trace w @ es1) pre' x post (isl (fst (k v w1)))"
        by (simp add: w1)
      from shift[OF es1(2) X this] show "F (trace w) pre x post (isl (fst (k v w1)))"
        by (simp add: p(1))
    qed
    then show ?thesis using run es2 w1 by auto
  qed
qed

lemma marks_seq_pre:
  assumes "only P a" and "\<And>e. P e \<Longrightarrow> \<not> X e" and "marks X F k"
    and "\<And>h es1 pre x post b. list_all P es1 \<Longrightarrow> X x \<Longrightarrow>
                  F (h @ es1) pre x post b \<Longrightarrow> F h (es1 @ pre) x post b"
  shows "marks X F (io_seq a k)"
  unfolding io_seq_def using assms by (rule marks_bind_pre)

lemma marks_bind_pre0:
  assumes "shifts X F" and "only (\<lambda>e. \<not> X e) a" and "\<And>v. marks X F (k v)"
  shows "marks X F (io_bind a k)"
  by (rule marks_bind_pre[where P="\<lambda>e. \<not> X e"]) (use assms in \<open>auto simp: shifts_def\<close>)

lemma marks_seq_pre0:
  assumes "shifts X F" and "only (\<lambda>e. \<not> X e) a" and "marks X F k"
  shows "marks X F (io_seq a k)"
  unfolding io_seq_def using assms by (rule marks_bind_pre0)

lemma marks_bind_post:
  assumes a: "marks X F a" and k: "\<And>v. only (\<lambda>e. \<not> X e) (k v)"
    and ext: "\<And>h pre x post post' b. X x \<Longrightarrow> F h pre x post False \<Longrightarrow>
                list_all (\<lambda>e. \<not> X e) post' \<Longrightarrow> F h pre x (post @ post') b"
  shows "marks X F (io_bind a k)"
  unfolding marks_def
proof
  fix w
  obtain es1 where es1: "trace (snd (a w)) = trace w @ es1"
    and F1: "\<And>pre x post. es1 = pre @ x # post \<Longrightarrow> X x \<Longrightarrow>
               F (trace w) pre x post (isl (fst (a w)))"
    using a unfolding marks_def by blast
  obtain r w1 where aw: "a w = (r, w1)" by (cases "a w")
  show "\<exists>es. trace (snd (io_bind a k w)) = trace w @ es \<and>
        (\<forall>pre x post. es = pre @ x # post \<longrightarrow> X x \<longrightarrow>
           F (trace w) pre x post (isl (fst (io_bind a k w))))"
  proof (cases r)
    case (Inl e)
    then have "io_bind a k w = (Inl e, w1)" using aw by (simp add: io_bind_def)
    then show ?thesis using es1 F1 aw Inl by auto
  next
    case (Inr v)
    then have run: "io_bind a k w = k v w1" using aw by (simp add: io_bind_def)
    obtain es2 where es2: "trace (snd (k v w1)) = trace w1 @ es2" "list_all (\<lambda>e. \<not> X e) es2"
      using k[of v] unfolding only_def by blast
    have w1: "trace w1 = trace w @ es1" using es1 aw by simp
    have "\<And>pre x post. es1 @ es2 = pre @ x # post \<Longrightarrow> X x \<Longrightarrow>
             F (trace w) pre x post (isl (fst (k v w1)))"
    proof -
      fix pre x post assume eq: "es1 @ es2 = pre @ x # post" and X: "X x"
      from split_in_first[OF es2(2) eq X] obtain post' where
        p: "post = post' @ es2" "es1 = pre @ x # post'" by blast
      from F1[OF p(2) X] have "F (trace w) pre x post' False" using aw Inr by simp
      from ext[OF X this es2(2)] show "F (trace w) pre x post (isl (fst (k v w1)))"
        by (simp add: p(1))
    qed
    then show ?thesis using run es2 w1 by auto
  qed
qed

lemma marks_returns:
  assumes "marks X F m" and "\<And>h pre x post b b'. X x \<Longrightarrow> F h pre x post b \<Longrightarrow> G h pre x post b'"
  shows "marks X G (returns m)"
  unfolding marks_def
proof
  fix w
  obtain es where es: "trace (snd (m w)) = trace w @ es"
    and F: "\<And>pre x post. es = pre @ x # post \<Longrightarrow> X x \<Longrightarrow>
               F (trace w) pre x post (isl (fst (m w)))"
    using assms(1) unfolding marks_def by blast
  have "snd (returns m w) = snd (m w)"
    by (auto simp: returns_def split: prod.splits sum.splits signal.splits)
  moreover have "\<And>pre x post. es = pre @ x # post \<Longrightarrow> X x \<Longrightarrow>
               G (trace w) pre x post (isl (fst (returns m w)))"
    using F assms(2) by blast
  ultimately show "\<exists>es. trace (snd (returns m w)) = trace w @ es \<and>
        (\<forall>pre x post. es = pre @ x # post \<longrightarrow> X x \<longrightarrow>
           G (trace w) pre x post (isl (fst (returns m w))))"
    using es by auto
qed

lemma marks_if: "(c \<Longrightarrow> marks X F a) \<Longrightarrow> (\<not> c \<Longrightarrow> marks X F b) \<Longrightarrow> marks X F (if c then a else b)"
  by simp

lemma marks_when: "(c \<Longrightarrow> marks X F m) \<Longrightarrow> marks X F (io_when c m)"
  by (simp add: io_when_def marks_only only_return)

lemma marks_case_prod: "(\<And>a b. marks X F (f a b)) \<Longrightarrow> marks X F (case p of (a, b) \<Rightarrow> f a b)"
  by (cases p) simp

lemma marks_emitted:
  assumes "marks X F m" and "emitted m w = pre @ x # post" and "X x"
  shows "F (trace w) pre x post (isl (fst (m w)))"
  using assms unfolding marks_def by (metis emitted_eq) 

lemma Cons_eq_split:
  "(a # es = pre @ x # post) \<longleftrightarrow>
     (pre = [] \<and> a = x \<and> es = post) \<or> (\<exists>pre'. pre = a # pre' \<and> es = pre' @ x # post)"
  by (cases pre) auto



lemma marks_seq_post:
  assumes "marks X F a" and "only (\<lambda>e. \<not> X e) k"
    and "\<And>h pre x post post' b. X x \<Longrightarrow> F h pre x post False \<Longrightarrow>
                list_all (\<lambda>e. \<not> X e) post' \<Longrightarrow> F h pre x (post @ post') b"
  shows "marks X F (io_seq a k)"
  unfolding io_seq_def using assms by (rule marks_bind_post)

text \<open>A yes/no gate whose decline prints a message and returns from the function.\<close>

lemma marks_bind_pre1:
  assumes "shifts_with P X F" and "only P a" and "\<And>v. marks X F (k v)"
  shows "marks X F (io_bind a k)"
  by (rule marks_bind_pre[where P=P]) (use assms in \<open>auto simp: shifts_with_def\<close>)

lemma marks_seq_pre1:
  assumes "shifts_with P X F" and "only P a" and "marks X F k"
  shows "marks X F (io_seq a k)"
  unfolding io_seq_def using assms by (rule marks_bind_pre1)

lemma marks_bind_post0:
  assumes "keeps X F" and "marks X F a" and "\<And>v. only (\<lambda>e. \<not> X e) (k v)"
  shows "marks X F (io_bind a k)"
  by (rule marks_bind_post) (use assms in \<open>auto simp: keeps_def\<close>)

lemma marks_seq_post0:
  assumes "keeps X F" and "marks X F a" and "only (\<lambda>e. \<not> X e) k"
  shows "marks X F (io_seq a k)"
  unfolding io_seq_def using assms by (rule marks_bind_post0)

lemma marks_confirm_gate_first:
  assumes yes: "only (\<lambda>e. \<forall>a. e \<noteq> Input (p @ '' (y/n): '') a) (k True)"
    and no: "k False = io_seq (print msg) (io_raise Returned)"
  shows "marks (\<lambda>e. \<exists>a. e = Input (p @ '' (y/n): '') a)
           (\<lambda>h pre x post b. pre = [] \<and> (\<forall>l. x = Input (p @ '' (y/n): '') (Some l) \<longrightarrow>
               lower (strip l) \<noteq> ''y'' \<longrightarrow> post = [Print msg] \<and> b))
           (io_bind (confirm p) k)"
  unfolding marks_def
proof
  fix w
  let ?pp = "p @ '' (y/n): ''"
  let ?X = "\<lambda>e. \<exists>a. e = Input ?pp a"
  let ?F = "\<lambda>(h::event list) (pre::event list) x post b. pre = [] \<and> (\<forall>l. x = Input ?pp (Some l) \<longrightarrow>
               lower (strip l) \<noteq> ''y'' \<longrightarrow> post = [Print msg] \<and> b)"
  let ?m = "io_bind (confirm p) k"
  show "\<exists>es. trace (snd (?m w)) = trace w @ es \<and>
        (\<forall>pre x post. es = pre @ x # post \<longrightarrow> ?X x \<longrightarrow> ?F (trace w) pre x post (isl (fst (?m w))))"
  proof (cases "stdin w")
    case Nil
    then have "?m w = (Inl EOFError, w\<lparr>trace := trace w @ [Input ?pp None]\<rparr>)"
      by (simp add: confirm_def io_defs)
    then show ?thesis by (auto simp: Cons_eq_split)
  next
    case (Cons l ls)
    let ?w' = "w\<lparr>stdin := ls, trace := trace w @ [Input ?pp (Some l)]\<rparr>"
    have run: "?m w = k (lower (strip l) = ''y'') ?w'"
      using Cons by (simp add: confirm_def io_defs Let_def)
    show ?thesis
    proof (cases "lower (strip l) = ''y''")
      case True
      obtain es2 where es2: "trace (snd (k True ?w')) = trace ?w' @ es2"
        "list_all (\<lambda>e. \<forall>a. e \<noteq> Input ?pp a) es2"
        using yes unfolding only_def by blast
      have "\<And>pre x post. Input ?pp (Some l) # es2 = pre @ x # post \<Longrightarrow> ?X x \<Longrightarrow>
              x = Input ?pp (Some l) \<and> pre = []"
        using es2(2) by (auto simp: Cons_eq_split list_all_iff)
      then show ?thesis using run True es2(1) by auto
    next
      case False
      have "?m w = (Inl Returned, ?w'\<lparr>trace := trace ?w' @ [Print msg]\<rparr>)"
        using run False no by (simp add: io_defs)
      then show ?thesis by (auto simp: Cons_eq_split)
    qed
  qed
qed

lemma marks_weaken:
  assumes "marks X F m" and "\<And>h pre x post b. X x \<Longrightarrow> F h pre x post b \<Longrightarrow> G h pre x post b"
  shows "marks X G m"
  using assms unfolding marks_def by meson

lemma marks_confirm_gate:
  assumes "only (\<lambda>e. \<forall>a. e \<noteq> Input (p @ '' (y/n): '') a) (k True)"
    and "k False = io_seq (print msg) (io_raise Returned)"
  shows "marks (\<lambda>e. \<exists>a. e = Input (p @ '' (y/n): '') a)
           (\<lambda>h pre x post b. \<forall>l. x = Input (p @ '' (y/n): '') (Some l) \<longrightarrow>
               lower (strip l) \<noteq> ''y'' \<longrightarrow> post = [Print msg] \<and> b)
           (io_bind (confirm p) k)"
  by (rule marks_weaken[OF marks_confirm_gate_first[OF assms]]) simp

lemmas only_unfold = confirm_def typed_confirm_def print_run_git_def log_action_def
  get_repo_root_def get_current_branch_def list_local_branches_def list_remote_branches_def
  branch_exists_local_def branch_exists_remote_def choose_primary_branch_def is_merged_into_def
  show_commits_unique_def create_backup_tag_push_def create_backup_tag_def
  is_working_tree_clean_def check_git_repo_def delete_branch_select_def
  delete_branch_protected_def delete_branch_switch_def delete_branch_merged_def
  delete_branch_backup_def delete_branch_force_def delete_branch_unmerged_def
  delete_branch_safety_def delete_branch_local_def delete_branch_remote_missing_def
  delete_branch_remote_confirm_def delete_branch_remote_def
  push_staging_to_main_track_staging_def push_staging_to_main_track_main_def
  push_staging_to_main_resolve_def push_staging_to_main_clean_def push_staging_to_main_pull_def
  push_staging_to_main_backup_def push_staging_to_main_confirm_def push_staging_to_main_merge_def

subsection \<open>Runs of the helpers\<close>

lemma log_action_run:
  "log_action env repo_root msg w =
     (Inr (), if truthy repo_root
              then w\<lparr>trace := trace w @
                     [Log (path_join (str_of repo_root) LOG_FILENAME)
                          (''['' @ strftime_iso (utcnow env (trace w)) @ ''] '' @ msg @ ''\<newline>'')]\<rparr>
              else w)"
  by (simp add: log_action_def io_defs Let_def)



lemma git_scripted:
  "git (scripted tbl) h args =
     (case map_of tbl args of Some cp \<Rightarrow> cp | None \<Rightarrow> \<lparr>returncode = 0, stdout = [], stderr = []\<rparr>)"
  by (simp add: scripted_def)

lemma scripted_clock:
  "strftime_compact (utcnow (scripted tbl) h) = ''20261104T093015Z''"
  "strftime_iso (utcnow (scripted tbl) h) = ''2026-11-04T09:30:15Z''"
  by (simp_all add: scripted_def strftime_compact_def strftime_iso_def dec4_def dec2_def digit_def
      char_of_nat_eq_iff)


lemma strip_examples:
  "strip ''1'' = ''1''" "strip ''3'' = ''3''" "strip ''main'' = ''main''"
  "strip ''delete main'' = ''delete main''" "strip ''DELETE Main'' = ''DELETE Main''"
  "strip '' DELETE main '' = ''DELETE main''"
  by (simp_all add: strip_def isspace_def)

lemma PROTECTED_BRANCHES_nonempty: "b \<in> PROTECTED_BRANCHES \<Longrightarrow> b \<noteq> []"
  by (auto simp: PROTECTED_BRANCHES_def)


lemmas str_defs = strip_def isspace_def lower_def lower_char_def splitlines_def linebreak_def
  split_def remote_head_def truthy_def str_of_def quoted_def path_join_def startswith_def
  LOG_FILENAME_def PROTECTED_BRANCHES_def char_of_nat_eq_iff out_def failed_def

text \<open>The runs of the two workflows extend the trace by what they emit.\<close>

lemma delete_branch_extends:
  "trace (snd (delete_branch env w)) = trace w @ emitted (delete_branch env) w"
proof -
  have "only (\<lambda>_. True) (delete_branch env)"
    unfolding delete_branch_def only_unfold by (intro only_intros allI impI; simp)
  then show ?thesis
    unfolding only_def using emitted_eq by metis
qed

lemma push_staging_to_main_extends:
  "trace (snd (push_staging_to_main env w)) = trace w @ emitted (push_staging_to_main env) w"
proof -
  have "only (\<lambda>_. True) (push_staging_to_main env)"
    unfolding push_staging_to_main_def only_unfold by (intro only_intros allI impI; simp)
  then show ?thesis
    unfolding only_def using emitted_eq by metis
qed

section \<open>The confirmation gates\<close>

lemma confirm_run:
  "stdin w = l # ls \<Longrightarrow>
   confirm prompt w =
     (Inr (lower (strip l) = ''y''),
      w\<lparr>stdin := ls, trace := trace w @ [Input (prompt @ '' (y/n): '') (Some l)]\<rparr>)"
  by (simp add: confirm_def io_defs Let_def)

text \<open>
  C10: for every line the operator enters, the yes/no confirmation \<open>confirm\<close> answers
  \<open>True\<close> if and only if the line, with surrounding whitespace trimmed and then
  lowercased, is exactly \<open>y\<close>, that is, if the trimmed line is \<open>y\<close> or \<open>Y\<close>;
  every other line, \<open>yes\<close> among them, is a decline.
\<close>

theorem confirm_affirmative_iff_y:
  assumes "stdin w = l # ls"
  shows "fst (confirm prompt w) = Inr (lower (strip l) = ''y'') \<and>
         (fst (confirm prompt w) = Inr True \<longleftrightarrow> strip l = ''y'' \<or> strip l = ''Y'') \<and>
         (strip l = ''yes'' \<longrightarrow> fst (confirm prompt w) = Inr False)"
proof -
  have r: "fst (confirm prompt w) = Inr (lower (strip l) = ''y'')"
    using assms by (simp add: confirm_run)
  have yes: "lower ''yes'' \<noteq> ''y''"
    by (simp add: lower_def)
  show ?thesis
    using r yes by (auto simp: lower_eq_y)
qed

theorem confirm_affirmative_iff_y_witness:
  "fst (confirm ''Delete local branch?'' \<lparr>stdin = [''  Y '', ''x''], trace = []\<rparr>) = Inr True \<and>
   fst (confirm ''Delete local branch?'' \<lparr>stdin = [''yes''], trace = []\<rparr>) = Inr False"
proof -
  have a: "strip ''  Y '' = ''Y''" and b: "strip ''yes'' = ''yes''"
    by (simp_all add: strip_def isspace_def)
  show ?thesis
    using confirm_affirmative_iff_y [of "\<lparr>stdin = [''  Y '', ''x''], trace = []\<rparr>" "''  Y ''" "[''x'']" "''Delete local branch?''"]
          confirm_affirmative_iff_y [of "\<lparr>stdin = [''yes''], trace = []\<rparr>" "''yes''" "[]" "''Delete local branch?''"]
    by (simp add: a b lower_eq_y)
qed

section \<open>The protected branches\<close>

lemma delete_branch_protected_mismatch:
  assumes "stdin w = c # n # rest" and "strip n \<in> PROTECTED_BRANCHES"
    and "\<forall>t more. rest = t # more \<longrightarrow> strip t \<noteq> ''DELETE '' @ strip n"
  shows "(fst (delete_branch env w) = Inr () \<or>
          rest = [] \<and> fst (delete_branch env w) = Inl EOFError) \<and>
         (\<forall>e\<in>set (emitted (delete_branch env) w). \<not> effect e \<and> \<not> delete_command (strip n) e)"
  using assms PROTECTED_BRANCHES_nonempty[OF assms(2)]
  by (cases rest)
     (simp_all add: delete_branch_def delete_branch_select_def delete_branch_protected_def
      check_git_repo_def get_repo_root_def get_current_branch_def typed_confirm_def
      io_defs emitted_def Let_def effect_def query_def delete_command_def split: if_splits)

text \<open>
  C1: for a branch name of the protected set, entered as the name of the branch to delete,
  a run of \<open>delete_branch\<close> in which the line typed at the protected-branch confirmation,
  trimmed, is not exactly \<open>DELETE <branch-name>\<close> (or in which no line is typed there)
  issues none of the three delete commands (local, forced, remote), whatever the scope
  chosen: the run returns, or ends at the end of the input, and it emits no \<open>git\<close>
  command other than queries and writes nothing to the audit log.
\<close>

theorem protected_branch_needs_exact_phrase:
  assumes "stdin w = choice # name # rest"
    and "strip name \<in> PROTECTED_BRANCHES"
    and "\<forall>typed more. rest = typed # more \<longrightarrow> strip typed \<noteq> ''DELETE '' @ strip name"
  shows "(fst (delete_branch env w) = Inr () \<or>
          rest = [] \<and> fst (delete_branch env w) = Inl EOFError) \<and>
         (\<forall>e\<in>set (emitted (delete_branch env) w).
            \<not> effect e \<and> \<not> delete_command (strip name) e)"
  using assms by (rule delete_branch_protected_mismatch)

theorem protected_branch_needs_exact_phrase_witness:
  "fst (delete_branch (scripted []) \<lparr>stdin = [''3'', ''main'', ''delete main''], trace = []\<rparr>) = Inr () \<and>
   list_all (\<lambda>e. \<not> effect e \<and> \<not> delete_command ''main'' e)
     (emitted (delete_branch (scripted [])) \<lparr>stdin = [''3'', ''main'', ''delete main''], trace = []\<rparr>)"
  using protected_branch_needs_exact_phrase
    [of "\<lparr>stdin = [''3'', ''main'', ''delete main''], trace = []\<rparr>" "''3''" "''main''"
        "[''delete main'']" "scripted []"]
  by (simp add: strip_examples PROTECTED_BRANCHES_def list_all_iff)

text \<open>
  C8: the exact-text gate \<open>typed_confirm\<close> succeeds if and only if the line entered, with
  surrounding whitespace trimmed, is equal to the expected text, character by character
  (so case matters). In particular, when the branch to delete is \<open>main\<close> and the
  operator types \<open>delete main\<close> or \<open>DELETE Main\<close>, \<open>delete_branch\<close> returns having
  issued no command that changes the repository and having logged nothing.
\<close>

theorem typed_confirm_exact:
  "(stdin w = l # ls \<longrightarrow> fst (typed_confirm prompt expected w) = Inr (strip l = expected)) \<and>
   ((typed = ''delete main'' \<or> typed = ''DELETE Main'') \<and> stdin w' = choice # ''main'' # typed # rest \<longrightarrow>
      fst (delete_branch env w') = Inr () \<and>
      (\<forall>e\<in>set (emitted (delete_branch env) w'). \<not> effect e \<and> \<not> delete_command ''main'' e))"
proof (intro conjI impI)
  assume "stdin w = l # ls"
  then show "fst (typed_confirm prompt expected w) = Inr (strip l = expected)"
    by (simp add: typed_confirm_def io_defs Let_def)
next
  assume a: "(typed = ''delete main'' \<or> typed = ''DELETE Main'') \<and> stdin w' = choice # ''main'' # typed # rest"
  then have "strip typed \<noteq> ''DELETE '' @ strip ''main''"
    by (auto simp: strip_examples)
  moreover have "strip ''main'' \<in> PROTECTED_BRANCHES"
    by (simp add: strip_examples PROTECTED_BRANCHES_def)
  ultimately have "fst (delete_branch env w') = Inr () \<and>
      (\<forall>e\<in>set (emitted (delete_branch env) w').
         \<not> effect e \<and> \<not> delete_command (strip ''main'') e)"
    using a delete_branch_protected_mismatch[of w' choice "''main''" "typed # rest" env] by simp
  then show "fst (delete_branch env w') = Inr ()"
    and "\<forall>e\<in>set (emitted (delete_branch env) w'). \<not> effect e \<and> \<not> delete_command ''main'' e"
    by (simp_all add: strip_examples)
qed

theorem typed_confirm_exact_witness:
  "fst (typed_confirm ''Force-delete confirmation'' ''DELETE main''
          \<lparr>stdin = ['' DELETE main ''], trace = []\<rparr>) = Inr True \<and>
   fst (delete_branch (scripted []) \<lparr>stdin = [''1'', ''main'', ''DELETE Main''], trace = []\<rparr>) = Inr () \<and>
   list_all (\<lambda>e. \<not> effect e \<and> \<not> delete_command ''main'' e)
     (emitted (delete_branch (scripted [])) \<lparr>stdin = [''1'', ''main'', ''DELETE Main''], trace = []\<rparr>)"
  using typed_confirm_exact
    [of "\<lparr>stdin = ['' DELETE main ''], trace = []\<rparr>" "'' DELETE main ''" "[]"
        "''Force-delete confirmation''" "''DELETE main''" "''DELETE Main''"
        "\<lparr>stdin = [''1'', ''main'', ''DELETE Main''], trace = []\<rparr>" "''1''" "[]" "scripted []"]
  by (simp add: strip_examples list_all_iff)

section \<open>The backup tag\<close>











section \<open>The local delete path\<close>



section \<open>The forced delete\<close>














section \<open>Declined confirmations\<close>



















section \<open>Declining to switch away from the current branch\<close>

lemma marks_switch_gate:
  "marks (\<lambda>e. \<exists>a. e = Input ''Switch to the suggested safe branch and continue? (y/n): '' a)
     (\<lambda>h pre x post b.
        \<forall>l. x = Input ''Switch to the suggested safe branch and continue? (y/n): '' (Some l) \<longrightarrow>
          lower (strip l) \<noteq> ''y'' \<longrightarrow>
          post = [Print ''Abort: please checkout a different branch before deleting.''])
     (delete_branch env)"
proof -
  let ?sp = "''Switch to the suggested safe branch and continue? (y/n): ''"
  let ?X = "\<lambda>e. \<exists>a. e = Input ?sp a"
  let ?F = "\<lambda>(h::event list) (pre::event list) x post b.
        \<forall>l. x = Input ?sp (Some l) \<longrightarrow> lower (strip l) \<noteq> ''y'' \<longrightarrow>
          post = [Print ''Abort: please checkout a different branch before deleting.''] \<and> b"
  have sp: "?sp = ''Switch to the suggested safe branch and continue?'' @ '' (y/n): ''"
    by simp
  have sh: "shifts ?X ?F"
    by (auto simp: shifts_def)
  have ext: "\<And>h pre x post post' b. ?X x \<Longrightarrow> ?F h pre x post False \<Longrightarrow>
                list_all (\<lambda>e. \<not> ?X e) post' \<Longrightarrow> ?F h pre x (post @ post') b"
    by auto
  have gate: "marks ?X ?F
     (io_bind (confirm ''Switch to the suggested safe branch and continue?'') (\<lambda>yes.
     if yes then
       (case safe_target of
          None \<Rightarrow> io_raise TypeError
        | Some t \<Rightarrow> io_seq (print_run_git env [''checkout'', t]) (io_return ()))
     else
       io_seq (print ''Abort: please checkout a different branch before deleting.'')
              (io_raise Returned)))" for safe_target
    unfolding sp
    apply (rule marks_confirm_gate)
     apply (unfold only_unfold)
     apply (simp, (intro only_intros allI impI; simp)+)[1]
    apply simp
    done
  have switch: "marks ?X ?F (delete_branch_switch env)"
    unfolding delete_branch_switch_def
    apply (intro gate marks_seq_pre0[OF sh] marks_bind_pre0[OF sh])
    apply (unfold only_unfold)
    apply ((intro only_intros allI impI; simp)+)
    done
  have safety: "only (\<lambda>e. \<not> ?X e) (delete_branch_safety env rr b)" for rr b
    unfolding only_unfold by (intro only_intros allI impI; simp)
  have remote: "only (\<lambda>e. \<not> ?X e) (delete_branch_remote env rr b)" for rr b
    unfolding only_unfold by (intro only_intros allI impI; simp)
  have "local": "marks ?X ?F (delete_branch_local env rr cur b)" for rr cur b
    unfolding delete_branch_local_def
    apply (rule marks_bind_pre0[OF sh])
     apply (unfold only_unfold)[1]
     apply (intro only_intros allI impI; simp)
    apply (rule marks_if)
     apply (rule marks_only, intro only_intros, simp)
    apply (rule marks_seq_post[OF marks_when[OF switch] safety ext]; assumption)
    done
  have flows: "marks ?X ?F
      (io_seq (io_when c1 (delete_branch_local env rr cur b)) (io_when c2 (delete_branch_remote env rr b)))"
    for c1 c2 rr cur b
    by (rule marks_seq_post[OF marks_when[OF "local"] only_when[OF remote] ext]; assumption)
  have body: "marks ?X ?F
       (io_bind (delete_branch_select env) (\<lambda>(repo_root, current, choice, branch).
        io_seq (delete_branch_protected branch)
       (io_seq (io_when (choice \<in> {''1'', ''3''})
                  (delete_branch_local env repo_root current branch))
               (io_when (choice \<in> {''2'', ''3''})
                  (delete_branch_remote env repo_root branch)))))"
    apply (intro flows marks_case_prod marks_seq_pre0[OF sh] marks_bind_pre0[OF sh])
    apply (unfold only_unfold)
    apply ((intro only_intros allI impI; simp)+)
    done
  show ?thesis
    unfolding delete_branch_def
    by (rule marks_returns[OF body]) blast
qed


lemma delete_branch_switch_example:
  "delete_branch (scripted
     [([''branch'', ''--format=%(refname:short)''], out ''develop\<newline>feature/x\<newline>''),
      ([''rev-parse'', ''--abbrev-ref'', ''HEAD''], out ''feature/x\<newline>''),
      ([''rev-parse'', ''--show-toplevel''], out ''/repo\<newline>''),
      ([''remote''], out ''origin\<newline>''),
      ([''ls-remote'', ''--heads'', ''origin''], out ''0a1b2c refs/heads/feature/x\<newline>'')])
     \<lparr>stdin = [''3'', ''feature/x'', ''n'', ''feature/x''], trace = []\<rparr> =
   (Inr (),
    \<lparr>stdin = [''feature/x''],
     trace =
       [Git [''rev-parse'', ''--is-inside-work-tree''],
        Git [''rev-parse'', ''--show-toplevel''],
        Git [''rev-parse'', ''--abbrev-ref'', ''HEAD''],
        Print ''Current branch: feature/x'',
        Print ''Delete branch options:'',
        Print ''  1) Delete local branch'',
        Print ''  2) Delete remote branch (origin)'',
        Print ''  3) Delete both local and remote'',
        Input ''> '' (Some ''3''),
        Input ''Branch name to delete: '' (Some ''feature/x''),
        Git [''branch'', ''--format=%(refname:short)''],
        Print ''You are currently on the branch you want to delete.'',
        Git [''branch'', ''--format=%(refname:short)''],
        Print ''Suggested safe branch to switch to: develop'',
        Input ''Switch to the suggested safe branch and continue? (y/n): '' (Some ''n''),
        Print ''Abort: please checkout a different branch before deleting.'']\<rparr>)"
proof -
  define env where "env = scripted
     [([''branch'', ''--format=%(refname:short)''], out ''develop\<newline>feature/x\<newline>''),
      ([''rev-parse'', ''--abbrev-ref'', ''HEAD''], out ''feature/x\<newline>''),
      ([''rev-parse'', ''--show-toplevel''], out ''/repo\<newline>''),
      ([''remote''], out ''origin\<newline>''),
      ([''ls-remote'', ''--heads'', ''origin''], out ''0a1b2c refs/heads/feature/x\<newline>'')]"
  have g: "git env h [''rev-parse'', ''--is-inside-work-tree''] = out []"
    "git env h [''rev-parse'', ''--show-toplevel''] = out ''/repo\<newline>''"
    "git env h [''rev-parse'', ''--abbrev-ref'', ''HEAD''] = out ''feature/x\<newline>''"
    "git env h [''branch'', ''--format=%(refname:short)''] = out ''develop\<newline>feature/x\<newline>''" for h
    by (simp_all add: env_def git_scripted out_def)
  have l: "list_local_branches env w =
     (Inr [''develop'', ''feature/x''],
      w\<lparr>trace := trace w @ [Git [''branch'', ''--format=%(refname:short)'']]\<rparr>)" for w
    by (simp add: list_local_branches_def io_defs g str_defs)
  have "delete_branch env \<lparr>stdin = [''3'', ''feature/x'', ''n'', ''feature/x''], trace = []\<rparr> =
   (Inr (),
    \<lparr>stdin = [''feature/x''],
     trace =
       [Git [''rev-parse'', ''--is-inside-work-tree''],
        Git [''rev-parse'', ''--show-toplevel''],
        Git [''rev-parse'', ''--abbrev-ref'', ''HEAD''],
        Print ''Current branch: feature/x'',
        Print ''Delete branch options:'',
        Print ''  1) Delete local branch'',
        Print ''  2) Delete remote branch (origin)'',
        Print ''  3) Delete both local and remote'',
        Input ''> '' (Some ''3''),
        Input ''Branch name to delete: '' (Some ''feature/x''),
        Git [''branch'', ''--format=%(refname:short)''],
        Print ''You are currently on the branch you want to delete.'',
        Git [''branch'', ''--format=%(refname:short)''],
        Print ''Suggested safe branch to switch to: develop'',
        Input ''Switch to the suggested safe branch and continue? (y/n): '' (Some ''n''),
        Print ''Abort: please checkout a different branch before deleting.'']\<rparr>)"
    by (simp add: delete_branch_def delete_branch_select_def delete_branch_protected_def
        delete_branch_local_def delete_branch_switch_def branch_exists_local_def
        choose_primary_branch_def l check_git_repo_def get_repo_root_def get_current_branch_def
        confirm_def io_defs Let_def g str_defs)
  then show ?thesis unfolding env_def .
qed

text \<open>
  C6 does not hold: with scope 3, the branch to delete being the current branch, and the
  switch declined, the run ends at the abort message. No \<open>git remote\<close> is issued and the
  line meant for the remote confirmation is left unread.
\<close>

theorem declined_switch_remote_path_counterexample:
  "delete_branch (scripted
     [([''branch'', ''--format=%(refname:short)''], out ''develop\<newline>feature/x\<newline>''),
      ([''rev-parse'', ''--abbrev-ref'', ''HEAD''], out ''feature/x\<newline>''),
      ([''rev-parse'', ''--show-toplevel''], out ''/repo\<newline>''),
      ([''remote''], out ''origin\<newline>''),
      ([''ls-remote'', ''--heads'', ''origin''], out ''0a1b2c refs/heads/feature/x\<newline>'')])
     \<lparr>stdin = [''3'', ''feature/x'', ''n'', ''feature/x''], trace = []\<rparr> =
   (Inr (),
    \<lparr>stdin = [''feature/x''],
     trace =
       [Git [''rev-parse'', ''--is-inside-work-tree''],
        Git [''rev-parse'', ''--show-toplevel''],
        Git [''rev-parse'', ''--abbrev-ref'', ''HEAD''],
        Print ''Current branch: feature/x'',
        Print ''Delete branch options:'',
        Print ''  1) Delete local branch'',
        Print ''  2) Delete remote branch (origin)'',
        Print ''  3) Delete both local and remote'',
        Input ''> '' (Some ''3''),
        Input ''Branch name to delete: '' (Some ''feature/x''),
        Git [''branch'', ''--format=%(refname:short)''],
        Print ''You are currently on the branch you want to delete.'',
        Git [''branch'', ''--format=%(refname:short)''],
        Print ''Suggested safe branch to switch to: develop'',
        Input ''Switch to the suggested safe branch and continue? (y/n): '' (Some ''n''),
        Print ''Abort: please checkout a different branch before deleting.'']\<rparr>)"
  by (rule delete_branch_switch_example)

text \<open>
  C6, as the code has it: in every run of \<open>delete_branch\<close>, whatever the scope, when the
  operator declines to switch away from the current branch the run ends with the abort
  message: the local delete path and the remote delete path are both left out.
\<close>

theorem declined_switch_aborts_delete:
  assumes "emitted (delete_branch env) w =
             pre @ Input ''Switch to the suggested safe branch and continue? (y/n): '' (Some l) # post"
    and "lower (strip l) \<noteq> ''y''"
  shows "post = [Print ''Abort: please checkout a different branch before deleting.'']"
  using marks_emitted[OF marks_switch_gate assms(1)] assms(2) by blast

theorem declined_switch_aborts_delete_witness:
  "lower (strip ''n'') \<noteq> ''y'' \<and>
   drop 15 (emitted (delete_branch (scripted
     [([''branch'', ''--format=%(refname:short)''], out ''develop\<newline>feature/x\<newline>''),
      ([''rev-parse'', ''--abbrev-ref'', ''HEAD''], out ''feature/x\<newline>''),
      ([''rev-parse'', ''--show-toplevel''], out ''/repo\<newline>''),
      ([''remote''], out ''origin\<newline>''),
      ([''ls-remote'', ''--heads'', ''origin''], out ''0a1b2c refs/heads/feature/x\<newline>'')]))
     \<lparr>stdin = [''3'', ''feature/x'', ''n'', ''feature/x''], trace = []\<rparr>) =
   [Print ''Abort: please checkout a different branch before deleting.'']"
proof -
  let ?env = "scripted
     [([''branch'', ''--format=%(refname:short)''], out ''develop\<newline>feature/x\<newline>''),
      ([''rev-parse'', ''--abbrev-ref'', ''HEAD''], out ''feature/x\<newline>''),
      ([''rev-parse'', ''--show-toplevel''], out ''/repo\<newline>''),
      ([''remote''], out ''origin\<newline>''),
      ([''ls-remote'', ''--heads'', ''origin''], out ''0a1b2c refs/heads/feature/x\<newline>'')]"
  let ?w = "\<lparr>stdin = [''3'', ''feature/x'', ''n'', ''feature/x''], trace = []\<rparr>"
  let ?pre = "[Git [''rev-parse'', ''--is-inside-work-tree''],
        Git [''rev-parse'', ''--show-toplevel''],
        Git [''rev-parse'', ''--abbrev-ref'', ''HEAD''],
        Print ''Current branch: feature/x'',
        Print ''Delete branch options:'',
        Print ''  1) Delete local branch'',
        Print ''  2) Delete remote branch (origin)'',
        Print ''  3) Delete both local and remote'',
        Input ''> '' (Some ''3''),
        Input ''Branch name to delete: '' (Some ''feature/x''),
        Git [''branch'', ''--format=%(refname:short)''],
        Print ''You are currently on the branch you want to delete.'',
        Git [''branch'', ''--format=%(refname:short)''],
        Print ''Suggested safe branch to switch to: develop'']"
  let ?post = "drop 15 (emitted (delete_branch ?env) ?w)"
  have n: "lower (strip ''n'') \<noteq> ''y''"
    by (simp add: strip_def isspace_def lower_eq_y)
  have e: "emitted (delete_branch ?env) ?w =
      ?pre @ Input ''Switch to the suggested safe branch and continue? (y/n): '' (Some ''n'') # ?post"
    by (simp add: emitted_def delete_branch_switch_example)
  from declined_switch_aborts_delete[OF e n] n show ?thesis by simp
qed

section \<open>The dirty working tree\<close>

lemma marks_dirty_gate:
  "marks (\<lambda>e. \<exists>a. e = Input ''Proceed despite uncommitted changes? (y/n): '' a)
     (\<lambda>h pre x post b.
        \<forall>l. x = Input ''Proceed despite uncommitted changes? (y/n): '' (Some l) \<longrightarrow>
          lower (strip l) \<noteq> ''y'' \<longrightarrow>
          post = [Print ''Aborted due to dirty working tree.''] \<and>
          list_all (\<lambda>e. \<not> effect e \<or> tracking_checkout e) pre)
     (push_staging_to_main env)"
proof -
  let ?pp = "''Proceed despite uncommitted changes? (y/n): ''"
  let ?X = "\<lambda>e. \<exists>a. e = Input ?pp a"
  let ?R = "\<lambda>e. \<not> effect e \<or> tracking_checkout e"
  let ?P = "\<lambda>e. \<not> ?X e \<and> ?R e"
  let ?F = "\<lambda>(h::event list) (pre::event list) x post b.
        \<forall>l. x = Input ?pp (Some l) \<longrightarrow> lower (strip l) \<noteq> ''y'' \<longrightarrow>
          (post = [Print ''Aborted due to dirty working tree.''] \<and> b) \<and> list_all ?R pre"
  have pp: "?pp = ''Proceed despite uncommitted changes?'' @ '' (y/n): ''"
    by simp
  have sh: "shifts_with ?P ?X ?F"
    by (auto simp: shifts_with_def list_all_iff)
  have ext: "keeps ?X ?F"
    by (auto simp: keeps_def)
  have gate: "marks ?X ?F
     (io_bind (confirm ''Proceed despite uncommitted changes?'') (\<lambda>yes.
        io_when (\<not> yes)
          (io_seq (print ''Aborted due to dirty working tree.'') (io_raise Returned))))"
    unfolding pp
    apply (rule marks_weaken)
     apply (rule marks_confirm_gate_first[where msg="''Aborted due to dirty working tree.''"])
      apply (simp add: io_when_def only_return)
     apply (simp add: io_when_def)
    apply simp
    done
  have clean: "marks ?X ?F (push_staging_to_main_clean env)"
    unfolding push_staging_to_main_clean_def
    apply (intro gate marks_when marks_seq_pre1[OF sh] marks_bind_pre1[OF sh])
    apply (unfold only_unfold)
    apply ((intro only_intros allI impI; simp add: effect_def query_def)+)
    done
  have rest: "only (\<lambda>e. \<not> ?X e)
       (io_bind (push_staging_to_main_pull env) (\<lambda>chosen_main.
        io_seq (push_staging_to_main_backup env repo_root chosen_main)
       (io_seq (push_staging_to_main_confirm chosen_main)
               (push_staging_to_main_merge env repo_root chosen_main))))" for repo_root
    unfolding only_unfold by (intro only_intros allI impI; simp)
  have resolve: "only ?P (push_staging_to_main_resolve env)"
    unfolding only_unfold
    by (intro only_intros allI impI; simp add: effect_def query_def tracking_checkout_def)
  have body: "marks ?X ?F
       (io_bind (push_staging_to_main_resolve env) (\<lambda>repo_root.
        io_seq (push_staging_to_main_clean env)
       (io_bind (push_staging_to_main_pull env) (\<lambda>chosen_main.
        io_seq (push_staging_to_main_backup env repo_root chosen_main)
       (io_seq (push_staging_to_main_confirm chosen_main)
               (push_staging_to_main_merge env repo_root chosen_main))))))"
    by (rule marks_bind_pre1[OF sh resolve]) (rule marks_seq_post0[OF ext clean rest])
  show ?thesis
    unfolding push_staging_to_main_def
    by (rule marks_returns[OF body]) blast
qed

lemma push_staging_dirty_example:
  "push_staging_to_main (scripted
     [([''branch'', ''--format=%(refname:short)''], out ''main\<newline>''),
      ([''rev-parse'', ''--show-toplevel''], out ''/repo\<newline>''),
      ([''status'', ''--porcelain''], out '' M notes.txt\<newline>''),
      ([''ls-remote'', ''--heads'', ''origin''],
       out ''0a1b2c refs/heads/main\<newline>0a1b2d refs/heads/staging\<newline>'')])
     \<lparr>stdin = [''y'', ''n''], trace = []\<rparr> =
   (Inr (),
    \<lparr>stdin = [],
     trace =
       [Git [''rev-parse'', ''--is-inside-work-tree''],
        Git [''rev-parse'', ''--show-toplevel''],
        Git [''branch'', ''--format=%(refname:short)''],
        Git [''branch'', ''--format=%(refname:short)''],
        Git [''ls-remote'', ''--heads'', ''origin''],
        Git [''ls-remote'', ''--heads'', ''origin''],
        Input ''Local 'staging' not found. Create tracking branch from origin/staging? (y/n): ''
          (Some ''y''),
        Git [''checkout'', ''-b'', ''staging'', ''origin/staging''],
        Git [''status'', ''--porcelain''],
        Print ''Working tree is not clean. Please commit or stash changes before deploying to main.'',
        Input ''Proceed despite uncommitted changes? (y/n): '' (Some ''n''),
        Print ''Aborted due to dirty working tree.'']\<rparr>)"
proof -
  define env where "env = scripted
     [([''branch'', ''--format=%(refname:short)''], out ''main\<newline>''),
      ([''rev-parse'', ''--show-toplevel''], out ''/repo\<newline>''),
      ([''status'', ''--porcelain''], out '' M notes.txt\<newline>''),
      ([''ls-remote'', ''--heads'', ''origin''],
       out ''0a1b2c refs/heads/main\<newline>0a1b2d refs/heads/staging\<newline>'')]"
  have g: "git env h [''rev-parse'', ''--is-inside-work-tree''] = out []"
    "git env h [''rev-parse'', ''--show-toplevel''] = out ''/repo\<newline>''"
    "git env h [''branch'', ''--format=%(refname:short)''] = out ''main\<newline>''"
    "git env h [''status'', ''--porcelain''] = out '' M notes.txt\<newline>''"
    "git env h [''ls-remote'', ''--heads'', ''origin''] =
       out ''0a1b2c refs/heads/main\<newline>0a1b2d refs/heads/staging\<newline>''"
    "git env h [''checkout'', ''-b'', ''staging'', ''origin/staging''] = out []" for h
    by (simp_all add: env_def git_scripted out_def)
  have l: "list_local_branches env w =
     (Inr [''main''], w\<lparr>trace := trace w @ [Git [''branch'', ''--format=%(refname:short)'']]\<rparr>)" for w
    by (simp add: list_local_branches_def io_defs g str_defs)
  have r: "list_remote_branches env ''origin'' w =
     (Inr [''main'', ''staging''], w\<lparr>trace := trace w @ [Git [''ls-remote'', ''--heads'', ''origin'']]\<rparr>)" for w
    by (simp add: list_remote_branches_def io_defs g str_defs)
  have "push_staging_to_main env \<lparr>stdin = [''y'', ''n''], trace = []\<rparr> =
   (Inr (),
    \<lparr>stdin = [],
     trace =
       [Git [''rev-parse'', ''--is-inside-work-tree''],
        Git [''rev-parse'', ''--show-toplevel''],
        Git [''branch'', ''--format=%(refname:short)''],
        Git [''branch'', ''--format=%(refname:short)''],
        Git [''ls-remote'', ''--heads'', ''origin''],
        Git [''ls-remote'', ''--heads'', ''origin''],
        Input ''Local 'staging' not found. Create tracking branch from origin/staging? (y/n): ''
          (Some ''y''),
        Git [''checkout'', ''-b'', ''staging'', ''origin/staging''],
        Git [''status'', ''--porcelain''],
        Print ''Working tree is not clean. Please commit or stash changes before deploying to main.'',
        Input ''Proceed despite uncommitted changes? (y/n): '' (Some ''n''),
        Print ''Aborted due to dirty working tree.'']\<rparr>)"
    by (simp add: push_staging_to_main_def push_staging_to_main_resolve_def
        push_staging_to_main_track_staging_def push_staging_to_main_track_main_def
        push_staging_to_main_clean_def branch_exists_local_def branch_exists_remote_def l r
        check_git_repo_def get_repo_root_def is_working_tree_clean_def
        confirm_def io_defs Let_def g str_defs)
  then show ?thesis unfolding env_def .
qed

text \<open>
  C9 does not hold as stated: when \<open>staging\<close> exists only on the remote and the operator
  accepts the tracking branch, \<open>git checkout -b staging origin/staging\<close> is issued before
  the working tree is checked, and the decline of the dirty tree comes after it.
\<close>

theorem dirty_tree_checkout_counterexample:
  "push_staging_to_main (scripted
     [([''branch'', ''--format=%(refname:short)''], out ''main\<newline>''),
      ([''rev-parse'', ''--show-toplevel''], out ''/repo\<newline>''),
      ([''status'', ''--porcelain''], out '' M notes.txt\<newline>''),
      ([''ls-remote'', ''--heads'', ''origin''],
       out ''0a1b2c refs/heads/main\<newline>0a1b2d refs/heads/staging\<newline>'')])
     \<lparr>stdin = [''y'', ''n''], trace = []\<rparr> =
   (Inr (),
    \<lparr>stdin = [],
     trace =
       [Git [''rev-parse'', ''--is-inside-work-tree''],
        Git [''rev-parse'', ''--show-toplevel''],
        Git [''branch'', ''--format=%(refname:short)''],
        Git [''branch'', ''--format=%(refname:short)''],
        Git [''ls-remote'', ''--heads'', ''origin''],
        Git [''ls-remote'', ''--heads'', ''origin''],
        Input ''Local 'staging' not found. Create tracking branch from origin/staging? (y/n): ''
          (Some ''y''),
        Git [''checkout'', ''-b'', ''staging'', ''origin/staging''],
        Git [''status'', ''--porcelain''],
        Print ''Working tree is not clean. Please commit or stash changes before deploying to main.'',
        Input ''Proceed despite uncommitted changes? (y/n): '' (Some ''n''),
        Print ''Aborted due to dirty working tree.'']\<rparr>)"
  by (rule push_staging_dirty_example)

text \<open>
  C9, as the code has it: in every run of \<open>push_staging_to_main\<close>, when the operator
  declines to proceed with a working tree that is not clean, only the abort message
  follows, so that none of the checkouts and pulls of lines 389 to 394 is issued; and
  before the decline the run has issued no command that changes the repository other
  than the creation of a local tracking branch that the operator accepted.
  \<open>is_working_tree_clean\<close> answers \<open>False\<close> when \<open>git status\<close> fails as well as when
  it reports changes.
\<close>

theorem dirty_tree_declined_aborts:
  "(emitted (push_staging_to_main env) w =
      pre @ Input ''Proceed despite uncommitted changes? (y/n): '' (Some l) # post \<and>
    lower (strip l) \<noteq> ''y'' \<longrightarrow>
      post = [Print ''Aborted due to dirty working tree.''] \<and>
      list_all (\<lambda>e. \<not> effect e \<or> tracking_checkout e) pre) \<and>
   (returncode (git env (trace w') [''status'', ''--porcelain'']) \<noteq> 0 \<or>
    strip (stdout (git env (trace w') [''status'', ''--porcelain''])) \<noteq> [] \<longrightarrow>
      fst (is_working_tree_clean env w') = Inr False)"
proof (intro conjI impI)
  assume a: "emitted (push_staging_to_main env) w =
      pre @ Input ''Proceed despite uncommitted changes? (y/n): '' (Some l) # post \<and>
    lower (strip l) \<noteq> ''y''"
  then have e: "emitted (push_staging_to_main env) w =
      pre @ Input ''Proceed despite uncommitted changes? (y/n): '' (Some l) # post"
    by simp
  from marks_emitted[OF marks_dirty_gate e] a
  show "post = [Print ''Aborted due to dirty working tree.'']"
    and "list_all (\<lambda>e. \<not> effect e \<or> tracking_checkout e) pre"
    by blast+
next
  assume "returncode (git env (trace w') [''status'', ''--porcelain'']) \<noteq> 0 \<or>
    strip (stdout (git env (trace w') [''status'', ''--porcelain''])) \<noteq> []"
  then show "fst (is_working_tree_clean env w') = Inr False"
    by (auto simp: is_working_tree_clean_def io_defs)
qed

theorem dirty_tree_declined_aborts_witness:
  "lower (strip ''n'') \<noteq> ''y'' \<and>
   drop 11 (emitted (push_staging_to_main (scripted
     [([''branch'', ''--format=%(refname:short)''], out ''main\<newline>''),
      ([''rev-parse'', ''--show-toplevel''], out ''/repo\<newline>''),
      ([''status'', ''--porcelain''], out '' M notes.txt\<newline>''),
      ([''ls-remote'', ''--heads'', ''origin''],
       out ''0a1b2c refs/heads/main\<newline>0a1b2d refs/heads/staging\<newline>'')]))
     \<lparr>stdin = [''y'', ''n''], trace = []\<rparr>) = [Print ''Aborted due to dirty working tree.''] \<and>
   list_all (\<lambda>e. \<not> effect e \<or> tracking_checkout e)
     (take 10 (emitted (push_staging_to_main (scripted
     [([''branch'', ''--format=%(refname:short)''], out ''main\<newline>''),
      ([''rev-parse'', ''--show-toplevel''], out ''/repo\<newline>''),
      ([''status'', ''--porcelain''], out '' M notes.txt\<newline>''),
      ([''ls-remote'', ''--heads'', ''origin''],
       out ''0a1b2c refs/heads/main\<newline>0a1b2d refs/heads/staging\<newline>'')]))
     \<lparr>stdin = [''y'', ''n''], trace = []\<rparr>)) \<and>
   fst (is_working_tree_clean (scripted
     [([''branch'', ''--format=%(refname:short)''], out ''main\<newline>''),
      ([''rev-parse'', ''--show-toplevel''], out ''/repo\<newline>''),
      ([''status'', ''--porcelain''], out '' M notes.txt\<newline>''),
      ([''ls-remote'', ''--heads'', ''origin''],
       out ''0a1b2c refs/heads/main\<newline>0a1b2d refs/heads/staging\<newline>'')])
     \<lparr>stdin = [''y'', ''n''], trace = []\<rparr>) = Inr False"
proof -
  let ?env = "scripted
     [([''branch'', ''--format=%(refname:short)''], out ''main\<newline>''),
      ([''rev-parse'', ''--show-toplevel''], out ''/repo\<newline>''),
      ([''status'', ''--porcelain''], out '' M notes.txt\<newline>''),
      ([''ls-remote'', ''--heads'', ''origin''],
       out ''0a1b2c refs/heads/main\<newline>0a1b2d refs/heads/staging\<newline>'')]"
  let ?w = "\<lparr>stdin = [''y'', ''n''], trace = []\<rparr>"
  let ?es = "emitted (push_staging_to_main ?env) ?w"
  have n: "lower (strip ''n'') \<noteq> ''y''"
    by (simp add: strip_def isspace_def lower_eq_y)
  have e: "?es = take 10 ?es @ Input ''Proceed despite uncommitted changes? (y/n): '' (Some ''n'') #
                 drop 11 ?es"
    by (simp add: emitted_def push_staging_dirty_example)
  have d: "strip (stdout (git ?env (trace ?w) [''status'', ''--porcelain''])) \<noteq> []"
    by (simp add: git_scripted out_def strip_def isspace_def)
  from dirty_tree_declined_aborts[of ?env ?w "take 10 ?es" "''n''" "drop 11 ?es" ?w] e n d
  show ?thesis by blast
qed

section \<open>Merge and push\<close>

lemma length_strftime_iso: "length (strftime_iso t) = 20"
  by (simp add: strftime_iso_def dec4_def dec2_def)

lemma not_promotion_entry:
  "c \<noteq> CHR ''M'' \<Longrightarrow>
   \<not> promotion_entry (CHR ''['' # strftime_iso t @ CHR '']'' # CHR '' '' # c # msg)"
  by (simp add: promotion_entry_def startswith_def length_strftime_iso)

lemma marks_failed_merge:
  "marks (\<lambda>e. e = Git [''merge'', ''staging''])
     (\<lambda>h pre x post b.
        returncode (git env (h @ pre) [''merge'', ''staging'']) \<noteq> 0 \<longrightarrow>
        post = Print ''Merge failed or produced conflicts. Resolve manually, then push. Aborting push.'' #
               (if stderr (git env (h @ pre) [''merge'', ''staging'']) = [] then []
                else [Print (strip (stderr (git env (h @ pre) [''merge'', ''staging''])))]))
     (push_staging_to_main env)"
proof -
  let ?X = "\<lambda>e. e = Git [''merge'', ''staging'']"
  let ?F = "\<lambda>h pre (x::event) post (b::bool).
        returncode (git env (h @ pre) [''merge'', ''staging'']) \<noteq> 0 \<longrightarrow>
        post = Print ''Merge failed or produced conflicts. Resolve manually, then push. Aborting push.'' #
               (if stderr (git env (h @ pre) [''merge'', ''staging'']) = [] then []
                else [Print (strip (stderr (git env (h @ pre) [''merge'', ''staging''])))])"
  have sh: "shifts ?X ?F"
    by (simp add: shifts_def)
  have merge: "marks ?X ?F (push_staging_to_main_merge env rr cm)" for rr cm
    unfolding marks_def
    by (auto simp: push_staging_to_main_merge_def io_defs log_action_run Cons_eq_split)
  have body: "marks ?X ?F
       (io_bind (push_staging_to_main_resolve env) (\<lambda>repo_root.
        io_seq (push_staging_to_main_clean env)
       (io_bind (push_staging_to_main_pull env) (\<lambda>chosen_main.
        io_seq (push_staging_to_main_backup env repo_root chosen_main)
       (io_seq (push_staging_to_main_confirm chosen_main)
               (push_staging_to_main_merge env repo_root chosen_main))))))"
    apply (intro merge marks_seq_pre0[OF sh] marks_bind_pre0[OF sh])
    apply (unfold only_unfold)
    apply ((intro only_intros allI impI; simp)+)
    done
  show ?thesis
    unfolding push_staging_to_main_def
    by (rule marks_returns[OF body]) blast
qed

lemma marks_promotion_entry:
  "marks (\<lambda>e. \<exists>p l. e = Log p l \<and> promotion_entry l)
     (\<lambda>h pre x post b.
        \<exists>pre' c. pre = pre' @ [Git [''merge'', ''staging''], Git [''push'', ''origin'', c],
                                Print (''Successfully pushed '' @ quoted c @ '' to origin.'')] \<and>
          returncode (git env (h @ pre') [''merge'', ''staging'']) = 0 \<and>
          returncode (git env (h @ pre' @ [Git [''merge'', ''staging'']]) [''push'', ''origin'', c]) = 0 \<and>
          post = [])
     (push_staging_to_main env)"
proof -
  let ?X = "\<lambda>e. \<exists>p l. e = Log p l \<and> promotion_entry l"
  let ?F = "\<lambda>h pre (x::event) (post::event list) (b::bool).
        \<exists>pre' c. pre = pre' @ [Git [''merge'', ''staging''], Git [''push'', ''origin'', c],
                                Print (''Successfully pushed '' @ quoted c @ '' to origin.'')] \<and>
          returncode (git env (h @ pre') [''merge'', ''staging'']) = 0 \<and>
          returncode (git env (h @ pre' @ [Git [''merge'', ''staging'']]) [''push'', ''origin'', c]) = 0 \<and>
          post = []"
  have sh: "shifts ?X ?F"
    unfolding shifts_def
  proof (intro allI impI)
    fix h es1 pre x post b
    assume "?F (h @ es1) pre x post b"
    then obtain pre' c where "pre = pre' @ [Git [''merge'', ''staging''], Git [''push'', ''origin'', c],
                                Print (''Successfully pushed '' @ quoted c @ '' to origin.'')]"
      "returncode (git env (h @ es1 @ pre') [''merge'', ''staging'']) = 0"
      "returncode (git env (h @ es1 @ pre' @ [Git [''merge'', ''staging'']]) [''push'', ''origin'', c]) = 0"
      "post = []"
      by auto
    then show "?F h (es1 @ pre) x post b"
      by (intro exI[of _ "es1 @ pre'"] exI[of _ c]) simp
  qed
  have merge: "marks ?X ?F (push_staging_to_main_merge env rr cm)" for rr cm
    unfolding marks_def
    by (auto simp: push_staging_to_main_merge_def io_defs log_action_run Cons_eq_split)
  have body: "marks ?X ?F
       (io_bind (push_staging_to_main_resolve env) (\<lambda>repo_root.
        io_seq (push_staging_to_main_clean env)
       (io_bind (push_staging_to_main_pull env) (\<lambda>chosen_main.
        io_seq (push_staging_to_main_backup env repo_root chosen_main)
       (io_seq (push_staging_to_main_confirm chosen_main)
               (push_staging_to_main_merge env repo_root chosen_main))))))"
    apply (intro merge marks_seq_pre0[OF sh] marks_bind_pre0[OF sh])
    apply (unfold only_unfold)
    apply ((intro only_intros allI impI; simp add: not_promotion_entry)+)
    done
  show ?thesis
    unfolding push_staging_to_main_def
    by (rule marks_returns[OF body]) blast
qed

text \<open>
  C5: in every run of \<open>push_staging_to_main\<close>, when \<open>git merge staging\<close> returns a
  code other than zero, only the messages of the failure follow the merge: \<open>git push\<close> is
  not invoked and nothing is written to the audit log. And a promotion entry in the audit
  log is the last event of a run, written directly after a merge that returned zero, the
  push of the chosen main reference that returned zero, and the message of success.
\<close>

theorem failed_merge_prevents_push:
  "(emitted (push_staging_to_main env) w = pre @ Git [''merge'', ''staging''] # post \<and>
    returncode (git env (trace w @ pre) [''merge'', ''staging'']) \<noteq> 0 \<longrightarrow>
      post = Print ''Merge failed or produced conflicts. Resolve manually, then push. Aborting push.'' #
             (if stderr (git env (trace w @ pre) [''merge'', ''staging'']) = [] then []
              else [Print (strip (stderr (git env (trace w @ pre) [''merge'', ''staging''])))])) \<and>
   (emitted (push_staging_to_main env) w = pre' @ Log p line # post' \<and> promotion_entry line \<longrightarrow>
      (\<exists>before c.
         pre' = before @ [Git [''merge'', ''staging''], Git [''push'', ''origin'', c],
                          Print (''Successfully pushed '' @ quoted c @ '' to origin.'')] \<and>
         returncode (git env (trace w @ before) [''merge'', ''staging'']) = 0 \<and>
         returncode (git env (trace w @ before @ [Git [''merge'', ''staging'']])
                       [''push'', ''origin'', c]) = 0 \<and>
         post' = []))"
proof (intro conjI impI)
  assume a: "emitted (push_staging_to_main env) w = pre @ Git [''merge'', ''staging''] # post \<and>
    returncode (git env (trace w @ pre) [''merge'', ''staging'']) \<noteq> 0"
  then have e: "emitted (push_staging_to_main env) w = pre @ Git [''merge'', ''staging''] # post"
    by simp
  from marks_emitted[OF marks_failed_merge e] a
  show "post = Print ''Merge failed or produced conflicts. Resolve manually, then push. Aborting push.'' #
             (if stderr (git env (trace w @ pre) [''merge'', ''staging'']) = [] then []
              else [Print (strip (stderr (git env (trace w @ pre) [''merge'', ''staging''])))])"
    by blast
next
  assume a: "emitted (push_staging_to_main env) w = pre' @ Log p line # post' \<and> promotion_entry line"
  then have e: "emitted (push_staging_to_main env) w = pre' @ Log p line # post'"
    by simp
  from marks_emitted[OF marks_promotion_entry e] a
  show "\<exists>before c.
         pre' = before @ [Git [''merge'', ''staging''], Git [''push'', ''origin'', c],
                          Print (''Successfully pushed '' @ quoted c @ '' to origin.'')] \<and>
         returncode (git env (trace w @ before) [''merge'', ''staging'']) = 0 \<and>
         returncode (git env (trace w @ before @ [Git [''merge'', ''staging'']])
                       [''push'', ''origin'', c]) = 0 \<and>
         post' = []"
    by blast
qed

lemma push_staging_example:
  assumes "env = scripted
     [([''branch'', ''--format=%(refname:short)''], out ''main\<newline>staging\<newline>''),
      ([''rev-parse'', ''--show-toplevel''], out ''/repo\<newline>''),
      ([''merge'', ''staging''], merged),
      ([''ls-remote'', ''--heads'', ''origin''],
       out ''0a1b2c refs/heads/main\<newline>0a1b2d refs/heads/staging\<newline>'')]"
  shows "emitted (push_staging_to_main env) \<lparr>stdin = [''n'', ''PUSH STAGING TO MAIN''], trace = []\<rparr> =
       [Git [''rev-parse'', ''--is-inside-work-tree''],
        Git [''rev-parse'', ''--show-toplevel''],
        Git [''branch'', ''--format=%(refname:short)''],
        Git [''branch'', ''--format=%(refname:short)''],
        Git [''ls-remote'', ''--heads'', ''origin''],
        Git [''ls-remote'', ''--heads'', ''origin''],
        Git [''status'', ''--porcelain''],
        Git [''checkout'', ''staging''],
        Git [''pull'', ''origin'', ''staging''],
        Git [''branch'', ''--format=%(refname:short)''],
        Git [''checkout'', ''main''],
        Git [''pull'', ''origin'', ''main''],
        Input ''Create a backup tag for 'main' before merging? (y/n): '' (Some ''n''),
        Print ''This will merge 'staging' into 'main' and push to origin.'',
        Print ''To confirm, type exactly: PUSH STAGING TO MAIN'',
        Print ''Final confirmation'',
        Input ''Type the exact text to confirm: '' (Some ''PUSH STAGING TO MAIN''),
        Git [''merge'', ''staging'']] @
       (if returncode merged \<noteq> 0 then
          Print ''Merge failed or produced conflicts. Resolve manually, then push. Aborting push.'' #
          (if stderr merged = [] then [] else [Print (strip (stderr merged))])
        else
          [Git [''push'', ''origin'', ''main''],
           Print ''Successfully pushed 'main' to origin.'',
           Log ''/repo/.git/git_helper_actions.log''
               ''[2026-11-04T09:30:15Z] Merged staging into main and pushed to origin\<newline>''])"
proof -
  have g: "git env h [''rev-parse'', ''--is-inside-work-tree''] = out []"
    "git env h [''rev-parse'', ''--show-toplevel''] = out ''/repo\<newline>''"
    "git env h [''branch'', ''--format=%(refname:short)''] = out ''main\<newline>staging\<newline>''"
    "git env h [''status'', ''--porcelain''] = out []"
    "git env h [''ls-remote'', ''--heads'', ''origin''] =
       out ''0a1b2c refs/heads/main\<newline>0a1b2d refs/heads/staging\<newline>''"
    "git env h [''checkout'', ''staging''] = out []"
    "git env h [''pull'', ''origin'', ''staging''] = out []"
    "git env h [''checkout'', ''main''] = out []"
    "git env h [''pull'', ''origin'', ''main''] = out []"
    "git env h [''push'', ''origin'', ''main''] = out []"
    "git env h [''merge'', ''staging''] = merged"
    "strftime_iso (utcnow env h) = ''2026-11-04T09:30:15Z''" for h
    by (simp_all add: assms git_scripted scripted_clock out_def)
  have l: "list_local_branches env w =
     (Inr [''main'', ''staging''], w\<lparr>trace := trace w @ [Git [''branch'', ''--format=%(refname:short)'']]\<rparr>)" for w
    by (simp add: list_local_branches_def io_defs g str_defs)
  have r: "list_remote_branches env ''origin'' w =
     (Inr [''main'', ''staging''], w\<lparr>trace := trace w @ [Git [''ls-remote'', ''--heads'', ''origin'']]\<rparr>)" for w
    by (simp add: list_remote_branches_def io_defs g str_defs)
  show ?thesis
    by (simp add: emitted_def push_staging_to_main_def push_staging_to_main_resolve_def
        push_staging_to_main_track_staging_def push_staging_to_main_track_main_def
        push_staging_to_main_clean_def push_staging_to_main_pull_def
        push_staging_to_main_backup_def push_staging_to_main_confirm_def
        push_staging_to_main_merge_def print_run_git_def
        branch_exists_local_def branch_exists_remote_def l r
        check_git_repo_def get_repo_root_def is_working_tree_clean_def log_action_run
        confirm_def typed_confirm_def io_defs Let_def g str_defs)
qed

theorem failed_merge_prevents_push_witness:
  "drop 18 (emitted (push_staging_to_main (scripted
     [([''branch'', ''--format=%(refname:short)''], out ''main\<newline>staging\<newline>''),
      ([''rev-parse'', ''--show-toplevel''], out ''/repo\<newline>''),
      ([''merge'', ''staging''], failed ''CONFLICT (content): Merge conflict in notes.txt\<newline>''),
      ([''ls-remote'', ''--heads'', ''origin''],
       out ''0a1b2c refs/heads/main\<newline>0a1b2d refs/heads/staging\<newline>'')]))
     \<lparr>stdin = [''n'', ''PUSH STAGING TO MAIN''], trace = []\<rparr>) =
   [Print ''Merge failed or produced conflicts. Resolve manually, then push. Aborting push.'',
    Print ''CONFLICT (content): Merge conflict in notes.txt''] \<and>
   promotion_entry ''[2026-11-04T09:30:15Z] Merged staging into main and pushed to origin\<newline>'' \<and>
   (\<exists>before c.
      take 20 (emitted (push_staging_to_main (scripted
        [([''branch'', ''--format=%(refname:short)''], out ''main\<newline>staging\<newline>''),
         ([''rev-parse'', ''--show-toplevel''], out ''/repo\<newline>''),
         ([''merge'', ''staging''], out []),
         ([''ls-remote'', ''--heads'', ''origin''],
          out ''0a1b2c refs/heads/main\<newline>0a1b2d refs/heads/staging\<newline>'')]))
        \<lparr>stdin = [''n'', ''PUSH STAGING TO MAIN''], trace = []\<rparr>) =
      before @ [Git [''merge'', ''staging''], Git [''push'', ''origin'', c],
                Print (''Successfully pushed '' @ quoted c @ '' to origin.'')])"
proof -
  define envA where "envA = scripted
     [([''branch'', ''--format=%(refname:short)''], out ''main\<newline>staging\<newline>''),
      ([''rev-parse'', ''--show-toplevel''], out ''/repo\<newline>''),
      ([''merge'', ''staging''], failed ''CONFLICT (content): Merge conflict in notes.txt\<newline>''),
      ([''ls-remote'', ''--heads'', ''origin''],
       out ''0a1b2c refs/heads/main\<newline>0a1b2d refs/heads/staging\<newline>'')]"
  define envB where "envB = scripted
        [([''branch'', ''--format=%(refname:short)''], out ''main\<newline>staging\<newline>''),
         ([''rev-parse'', ''--show-toplevel''], out ''/repo\<newline>''),
         ([''merge'', ''staging''], out []),
         ([''ls-remote'', ''--heads'', ''origin''],
          out ''0a1b2c refs/heads/main\<newline>0a1b2d refs/heads/staging\<newline>'')]"
  let ?w = "\<lparr>stdin = [''n'', ''PUSH STAGING TO MAIN''], trace = []\<rparr>"
  let ?esA = "emitted (push_staging_to_main envA) ?w"
  let ?esB = "emitted (push_staging_to_main envB) ?w"
  let ?line = "''[2026-11-04T09:30:15Z] Merged staging into main and pushed to origin\<newline>''"
  note A = push_staging_example[OF envA_def]
  note B = push_staging_example[OF envB_def]
  have gA: "git envA h [''merge'', ''staging''] =
              failed ''CONFLICT (content): Merge conflict in notes.txt\<newline>''" for h
    by (simp add: envA_def git_scripted)
  have eA: "?esA = take 17 ?esA @ Git [''merge'', ''staging''] # drop 18 ?esA"
    by (simp add: A)
  have rcA: "returncode (git envA (trace ?w @ take 17 ?esA) [''merge'', ''staging'']) \<noteq> 0"
    by (simp add: gA failed_def)
  have eB: "?esB = take 20 ?esB @ Log ''/repo/.git/git_helper_actions.log'' ?line # drop 21 ?esB"
    by (simp add: B out_def)
  have pe: "promotion_entry ?line"
    by (simp add: promotion_entry_def startswith_def)
  from failed_merge_prevents_push[of envA ?w "take 17 ?esA" "drop 18 ?esA"] eA rcA
  have 1: "drop 18 ?esA =
      [Print ''Merge failed or produced conflicts. Resolve manually, then push. Aborting push.'',
       Print ''CONFLICT (content): Merge conflict in notes.txt'']"
    by (simp add: gA failed_def strip_def isspace_def)
  from failed_merge_prevents_push[of envB ?w _ _ "take 20 ?esB"
      "''/repo/.git/git_helper_actions.log''" ?line "drop 21 ?esB"] eB pe
  have 2: "\<exists>before c.
      take 20 ?esB = before @ [Git [''merge'', ''staging''], Git [''push'', ''origin'', c],
                Print (''Successfully pushed '' @ quoted c @ '' to origin.'')]"
    by blast
  show ?thesis
    using 1 2 pe unfolding envA_def envB_def by blast
qed

end
